theory Spec2Isabelle
  imports Complex_Main
begin

section \<open>JavaScript values and strings\<close>

text \<open>
  The storage layer reads rows of an external table whose cells are typed \<^verbatim>\<open>any\<close>:
  the casts of the record mapper (\<^verbatim>\<open>as string\<close>) check nothing at run time. A cell, and
  every entity field that the mapper fills from a cell, is therefore a JavaScript value.
  An absent property and a property holding \<^verbatim>\<open>undefined\<close> both read as \<open>JUndefined\<close>.

  A string is a \<open>char list\<close>. ASCII is exact; a character beyond ASCII stands as its
  UTF-8 bytes, and case and white space are modelled on ASCII only.
\<close>

datatype jsval =
    JUndefined
  | JNull
  | JBool bool
  | JNum real
  | JStr string
  | JArr "jsval list"
  | JObj "(string \<times> jsval) list"

text \<open>Truthiness, as \<^verbatim>\<open>if (x)\<close> and \<^verbatim>\<open>x || y\<close> test it.\<close>

fun truthy :: "jsval \<Rightarrow> bool" where
  "truthy JUndefined = False"
| "truthy JNull = False"
| "truthy (JBool b) = b"
| "truthy (JNum r) = (r \<noteq> 0)"
| "truthy (JStr s) = (s \<noteq> [])"
| "truthy (JArr xs) = True"
| "truthy (JObj kvs) = True"

definition js_or :: "jsval \<Rightarrow> jsval \<Rightarrow> jsval" where
  "js_or a b = (if truthy a then a else b)"

definition strs :: "string list \<Rightarrow> jsval" where
  "strs xs = JArr (map JStr xs)"

definition opt_str :: "string option \<Rightarrow> jsval" where
  "opt_str v = (case v of None \<Rightarrow> JUndefined | Some s \<Rightarrow> JStr s)"

definition opt_strs :: "string list option \<Rightarrow> jsval" where
  "opt_strs v = (case v of None \<Rightarrow> JUndefined | Some xs \<Rightarrow> strs xs)"

definition startsWith :: "string \<Rightarrow> string \<Rightarrow> bool" where
  "startsWith s p = (take (length p) s = p)"

definition endsWith :: "string \<Rightarrow> string \<Rightarrow> bool" where
  "endsWith s p = (length p \<le> length s \<and> drop (length s - length p) s = p)"

definition toLowerCase_char :: "char \<Rightarrow> char" where
  "toLowerCase_char c =
     (let n = (of_char c :: nat) in if 65 \<le> n \<and> n \<le> 90 then char_of (n + 32) else c)"

definition toLowerCase :: "string \<Rightarrow> string" where
  "toLowerCase s = map toLowerCase_char s"

section \<open>The external record store\<close>

text \<open>
  A call of the Airtable client either throws or returns. What it returns is not
  decided by this program, so each operation takes the backend's answers as arguments.
\<close>

datatype error = BackendError string | TypeError string

datatype 'a backend = Threw error | Returned 'a

record AirtableRecord =
  rec_id :: string
  rec_fields :: "(string \<times> jsval) list"

text \<open>\<^verbatim>\<open>record.fields.K\<close>\<close>

definition field :: "AirtableRecord \<Rightarrow> string \<Rightarrow> jsval" where
  "field r k = (case map_of (rec_fields r) k of None \<Rightarrow> JUndefined | Some v \<Rightarrow> v)"

section \<open>Scholarships\<close>

record Scholarship =
  sch_id :: string
  sch_title :: jsval
  sch_organization :: jsval
  sch_amount :: jsval
  sch_deadline :: jsval
  sch_description :: jsval
  sch_requirements :: jsval
  sch_tags :: jsval
  sch_type :: jsval
  sch_eligibilityGpa :: jsval
  sch_eligibleFields :: jsval
  sch_eligibleLevels :: jsval
  sch_isActive :: bool
  sch_createdAt :: jsval
  sch_notes :: jsval
  sch_profileId :: jsval

text \<open>\<^verbatim>\<open>InsertScholarship\<close>: the typed input of a create.\<close>

record InsertScholarship =
  isc_title :: string
  isc_organization :: string
  isc_amount :: string
  isc_deadline :: string
  isc_description :: string
  isc_requirements :: string
  isc_tags :: "string list"
  isc_type :: string
  isc_eligibilityGpa :: "string option"
  isc_eligibleFields :: "string list option"
  isc_eligibleLevels :: "string list option"
  isc_isActive :: bool

subsection \<open>The fallback catalog\<close>

definition rupee :: string where
  "rupee = [CHR 0xE2, CHR 0x82, CHR 0xB9]"

definition fallbackEntry ::
  "string \<Rightarrow> string \<Rightarrow> string \<Rightarrow> string \<Rightarrow> string \<Rightarrow> string \<Rightarrow> string \<Rightarrow> string list \<Rightarrow>
   string \<Rightarrow> string \<Rightarrow> string list \<Rightarrow> string list \<Rightarrow> string \<Rightarrow> Scholarship" where
  "fallbackEntry i t org amt dl descr reqs tgs ty gpa flds lvls now =
     \<lparr> sch_id = i, sch_title = JStr t, sch_organization = JStr org, sch_amount = JStr amt,
       sch_deadline = JStr dl, sch_description = JStr descr, sch_requirements = JStr reqs,
       sch_tags = strs tgs, sch_type = JStr ty, sch_eligibilityGpa = JStr gpa,
       sch_eligibleFields = strs flds, sch_eligibleLevels = strs lvls, sch_isActive = True,
       sch_createdAt = JStr now, sch_notes = JUndefined, sch_profileId = JUndefined \<rparr>"

definition getFallbackScholarships :: "string \<Rightarrow> Scholarship list" where
  "getFallbackScholarships now =
    [ fallbackEntry ''fallback-1'' ''National Merit STEM Scholarship''
        ''Future Scientists Foundation'' (rupee @ ''12,50,000'') ''2025-03-15''
        ''Supporting outstanding students pursuing STEM degrees with demonstrated academic excellence and research potential.''
        ''Minimum 3.7 GPA, STEM major, research experience preferred''
        [''STEM'', ''Merit-Based'', ''Undergraduate'', ''Research'']
        ''merit-based'' ''3.7''
        [''Computer Science'', ''Engineering'', ''Mathematics'', ''Physics'', ''Chemistry'', ''Biology'']
        [''undergraduate''] now,
      fallbackEntry ''fallback-2'' ''Tech Diversity Excellence Award''
        ''TechForward Initiative'' (rupee @ ''7,00,000'') ''2025-04-01''
        ''Promoting diversity in technology fields by supporting underrepresented students with financial aid and mentorship.''
        ''Technology-related major, demonstrate financial need, minimum 3.0 GPA''
        [''Technology'', ''Diversity'', ''Need-Based'', ''Mentorship'']
        ''need-based'' ''3.0''
        [''Computer Science'', ''Information Technology'', ''Software Engineering'', ''AIML'']
        [''undergraduate'', ''graduate''] now,
      fallbackEntry ''fallback-3'' ''Community Leadership Grant''
        ''Local Community Foundation'' (rupee @ ''2,50,000'') ''2025-05-15''
        ''Recognizing students who demonstrate exceptional leadership and community service commitment.''
        ''Minimum 100 hours community service, leadership role in organization, any major, 3.2+ GPA''
        [''Leadership'', ''Community Service'', ''Local'']
        ''merit-based'' ''3.2'' [] [''undergraduate''] now,
      fallbackEntry ''fallback-4'' ''Environmental Innovation Award''
        ''Green Future Initiative'' (rupee @ ''10,00,000'') ''2025-06-30''
        ''Supporting students developing innovative solutions for environmental challenges and sustainability.''
        ''Environmental science or related field, research project focused on sustainability, minimum 3.5 GPA''
        [''Environmental Science'', ''Innovation'', ''Research-Based'', ''Sustainability'']
        ''merit-based'' ''3.5''
        [''Environmental Science'', ''Environmental Engineering'', ''Renewable Energy'', ''Biology'']
        [''undergraduate'', ''graduate''] now,
      fallbackEntry ''fallback-5'' ''First Generation College Student Support''
        ''Educational Equity Foundation'' (rupee @ ''4,00,000'') ''2025-04-30''
        ''Supporting first-generation college students with financial aid and academic support services.''
        ''First-generation college student status, demonstrate financial need, minimum 2.8 GPA''
        [''First-Generation'', ''Need-Based'', ''Academic Support'']
        ''need-based'' ''2.8'' [] [''undergraduate''] now,
      fallbackEntry ''fallback-6'' ''Women in Engineering Scholarship''
        ''Society of Women Engineers'' (rupee @ ''8,00,000'') ''2025-05-01''
        ''Empowering women pursuing engineering degrees with financial support and networking opportunities.''
        ''Female students in engineering programs, minimum 3.3 GPA''
        [''Women'', ''Engineering'', ''STEM'', ''Diversity'']
        ''merit-based'' ''3.3''
        [''Engineering'', ''Computer Science'', ''Electronics'', ''Mechanical Engineering'']
        [''undergraduate'', ''graduate''] now ]"

subsection \<open>The record mapper\<close>

text \<open>
  \<^verbatim>\<open>JSON.parse\<close> belongs to the platform: it is the argument \<open>jsonParse\<close>, and
  \<open>None\<close> is the \<^verbatim>\<open>SyntaxError\<close> it throws. Each list-typed field has its own
  \<^verbatim>\<open>try\<close> block of the same shape; they differ in the value the field starts with and is
  reset to in the \<^verbatim>\<open>catch\<close>, here \<open>dflt\<close>.
\<close>

definition parseListField :: "(string \<Rightarrow> jsval option) \<Rightarrow> jsval \<Rightarrow> jsval \<Rightarrow> jsval" where
  "parseListField jsonParse dflt raw =
     (if truthy raw then
        (case raw of
           JStr s \<Rightarrow> (case jsonParse s of None \<Rightarrow> dflt | Some v \<Rightarrow> v)
         | JArr xs \<Rightarrow> JArr xs
         | _ \<Rightarrow> dflt)
      else dflt)"

definition tagsRaw :: "AirtableRecord \<Rightarrow> jsval" where
  "tagsRaw r = js_or (field r ''tags'') (field r ''Tags'')"

definition fieldsRaw :: "AirtableRecord \<Rightarrow> jsval" where
  "fieldsRaw r = js_or (field r ''eligibleFields'') (field r ''EligibleFields'')"

definition levelsRaw :: "AirtableRecord \<Rightarrow> jsval" where
  "levelsRaw r = js_or (field r ''eligibleLevels'') (field r ''EligibleLevels'')"

definition mapToScholarship ::
  "(string \<Rightarrow> jsval option) \<Rightarrow> string \<Rightarrow> AirtableRecord \<Rightarrow> Scholarship" where
  "mapToScholarship jsonParse now r =
     \<lparr> sch_id = rec_id r,
       sch_title = js_or (js_or (field r ''Title'') (field r ''title'')) (JStr ''Untitled Scholarship''),
       sch_organization =
         js_or (js_or (field r ''Organization'') (field r ''organization'')) (JStr ''Unknown Organization''),
       sch_amount = js_or (js_or (field r ''Amount'') (field r ''amount'')) (JStr ''Amount TBD''),
       sch_deadline =
         js_or (js_or (field r ''Deadline'') (field r ''deadline'')) (JStr ''No deadline specified''),
       sch_description =
         js_or (js_or (field r ''Description'') (field r ''description'')) (JStr ''No description available''),
       sch_requirements =
         js_or (js_or (field r ''Requirements'') (field r ''requirements''))
               (JStr ''Check with scholarship provider''),
       sch_tags = parseListField jsonParse (JArr []) (tagsRaw r),
       sch_type = js_or (js_or (field r ''Type'') (field r ''type'')) (JStr ''merit-based''),
       sch_eligibilityGpa = js_or (field r ''EligibilityGpa'') (field r ''eligibilityGpa''),
       sch_eligibleFields = parseListField jsonParse JUndefined (fieldsRaw r),
       sch_eligibleLevels = parseListField jsonParse JUndefined (levelsRaw r),
       sch_isActive = (field r ''isActive'' \<noteq> JBool False),
       sch_createdAt = js_or (js_or (field r ''CreatedAt'') (field r ''createdAt'')) (JStr now),
       sch_notes = js_or (field r ''Notes'') (field r ''notes''),
       sch_profileId = js_or (field r ''ProfileId'') (field r ''profileId'') \<rparr>"

subsection \<open>Listing, lookup and creation\<close>

text \<open>
  \<open>useAirtable\<close> is fixed when the store is built: \<open>False\<close> is the mode with no backend
  configured. The three module-level maps are the transient cache; there is none for
  scholarships.
\<close>

record StudentProfile =
  sp_id :: string
  sp_name :: jsval
  sp_email :: jsval
  sp_phone :: jsval
  sp_location :: jsval
  sp_educationLevel :: jsval
  sp_fieldOfStudy :: jsval
  sp_gpa :: jsval
  sp_graduationYear :: jsval
  sp_skills :: jsval
  sp_activities :: jsval
  sp_financialNeed :: jsval
  sp_summary :: jsval
  sp_education :: jsval
  sp_experience :: jsval
  sp_projects :: jsval
  sp_createdAt :: jsval
  sp_updatedAt :: jsval

record ScholarshipMatch =
  m_id :: string
  m_profileId :: string
  m_scholarshipId :: string
  m_matchScore :: int
  m_aiReasoning :: "string option"
  m_status :: string
  m_createdAt :: string

record ScholarshipApplication =
  app_id :: string
  app_studentProfileId :: string
  app_scholarshipId :: string
  app_documents :: "string list"
  app_status :: string
  app_appliedAt :: string

record Storage =
  useAirtable :: bool
  profileStorage :: "string \<rightharpoonup> StudentProfile"
  matchStorage :: "string \<rightharpoonup> ScholarshipMatch list"
  applicationStorage :: "string \<rightharpoonup> ScholarshipApplication list"

definition hasProperData :: "AirtableRecord \<Rightarrow> bool" where
  "hasProperData firstRecord =
     truthy (js_or (js_or (js_or (field firstRecord ''Title'') (field firstRecord ''title''))
                          (field firstRecord ''Organization''))
                   (field firstRecord ''organization''))"

definition hasValidData :: "Scholarship list \<Rightarrow> bool" where
  "hasValidData scholarships =
     list_ex (\<lambda>s. sch_title s \<noteq> JStr ''Untitled Scholarship''
                 \<and> sch_organization s \<noteq> JStr ''Unknown Organization'') scholarships"

definition getAllScholarships ::
  "Storage \<Rightarrow> (string \<Rightarrow> jsval option) \<Rightarrow> string \<Rightarrow> AirtableRecord list backend \<Rightarrow> Scholarship list" where
  "getAllScholarships st jsonParse now selectAll =
     (if \<not> useAirtable st then getFallbackScholarships now
      else case selectAll of
        Threw e \<Rightarrow> getFallbackScholarships now
      | Returned records \<Rightarrow>
          (if records \<noteq> [] \<and> \<not> hasProperData (hd records) then getFallbackScholarships now
           else
             let scholarships = map (mapToScholarship jsonParse now) records in
             if \<not> hasValidData scholarships \<and> scholarships \<noteq> [] then getFallbackScholarships now
             else if scholarships \<noteq> [] then scholarships
             else getFallbackScholarships now))"

definition findById :: "string \<Rightarrow> Scholarship list \<Rightarrow> Scholarship option" where
  "findById i xs = find (\<lambda>s. sch_id s = i) xs"

definition getScholarshipById ::
  "Storage \<Rightarrow> (string \<Rightarrow> jsval option) \<Rightarrow> string \<Rightarrow> (string \<Rightarrow> AirtableRecord option backend) \<Rightarrow>
   string \<Rightarrow> Scholarship option" where
  "getScholarshipById st jsonParse now findRecord i =
     (if startsWith i ''fallback-'' then findById i (getFallbackScholarships now)
      else if \<not> useAirtable st then findById i (getFallbackScholarships now)
      else case findRecord i of
        Threw e \<Rightarrow> findById i (getFallbackScholarships now)
      | Returned None \<Rightarrow> None
      | Returned (Some r) \<Rightarrow>
          (let scholarship = mapToScholarship jsonParse now r in
           if sch_title scholarship = JStr ''Untitled Scholarship''
           then (case getFallbackScholarships now of [] \<Rightarrow> None | f # fs \<Rightarrow> Some f)
           else Some scholarship))"

text \<open>
  The fields a scholarship create sends. \<^verbatim>\<open>JSON.stringify\<close> is the argument
  \<open>jsonStringify\<close>. \<open>isActive\<close> is not sent.
\<close>

definition or_empty :: "string option \<Rightarrow> string" where
  "or_empty v = (case v of None \<Rightarrow> [] | Some s \<Rightarrow> s)"

definition or_nil :: "string list option \<Rightarrow> string list" where
  "or_nil v = (case v of None \<Rightarrow> [] | Some xs \<Rightarrow> xs)"

text \<open>What a round trip through the backend needs of the platform's JSON functions at \<open>v\<close>.\<close>

definition jsonRoundTrip :: "(jsval \<Rightarrow> string) \<Rightarrow> (string \<Rightarrow> jsval option) \<Rightarrow> jsval \<Rightarrow> bool" where
  "jsonRoundTrip jsonStringify jsonParse v =
     (jsonStringify v \<noteq> [] \<and> jsonParse (jsonStringify v) = Some v)"

definition scholarshipFields ::
  "(jsval \<Rightarrow> string) \<Rightarrow> string \<Rightarrow> InsertScholarship \<Rightarrow> (string \<times> jsval) list" where
  "scholarshipFields jsonStringify now scholarship =
     [ (''Title'', JStr (isc_title scholarship)),
       (''Organization'', JStr (isc_organization scholarship)),
       (''Amount'', JStr (isc_amount scholarship)),
       (''Deadline'', JStr (isc_deadline scholarship)),
       (''Description'', JStr (isc_description scholarship)),
       (''Requirements'', JStr (isc_requirements scholarship)),
       (''Tags'', JStr (jsonStringify (strs (isc_tags scholarship)))),
       (''Type'', JStr (isc_type scholarship)),
       (''EligibilityGpa'', JStr (or_empty (isc_eligibilityGpa scholarship))),
       (''EligibleFields'', JStr (jsonStringify (strs (or_nil (isc_eligibleFields scholarship))))),
       (''EligibleLevels'', JStr (jsonStringify (strs (or_nil (isc_eligibleLevels scholarship))))),
       (''CreatedAt'', JStr now) ]"

text \<open>
  \<open>Inl\<close> is the exception that leaves \<^verbatim>\<open>createScholarship\<close>: the \<^verbatim>\<open>catch\<close> logs and
  rethrows. \<^verbatim>\<open>records[0]\<close> of an empty answer is \<^verbatim>\<open>undefined\<close>, and the mapper's first
  property access on it throws a \<^verbatim>\<open>TypeError\<close> inside the same \<^verbatim>\<open>try\<close>.
\<close>

definition createScholarship ::
  "Storage \<Rightarrow> (jsval \<Rightarrow> string) \<Rightarrow> (string \<Rightarrow> jsval option) \<Rightarrow> string \<Rightarrow> string \<Rightarrow>
   ((string \<times> jsval) list \<Rightarrow> AirtableRecord list backend) \<Rightarrow> InsertScholarship \<Rightarrow>
   error + Scholarship" where
  "createScholarship st jsonStringify jsonParse uuid now create scholarship =
     (if \<not> useAirtable st then
        Inr \<lparr> sch_id = uuid,
              sch_title = JStr (isc_title scholarship),
              sch_organization = JStr (isc_organization scholarship),
              sch_amount = JStr (isc_amount scholarship),
              sch_deadline = JStr (isc_deadline scholarship),
              sch_description = JStr (isc_description scholarship),
              sch_requirements = JStr (isc_requirements scholarship),
              sch_tags = strs (isc_tags scholarship),
              sch_type = JStr (isc_type scholarship),
              sch_eligibilityGpa = opt_str (isc_eligibilityGpa scholarship),
              sch_eligibleFields = opt_strs (isc_eligibleFields scholarship),
              sch_eligibleLevels = opt_strs (isc_eligibleLevels scholarship),
              sch_isActive = isc_isActive scholarship,
              sch_createdAt = JStr now,
              sch_notes = JUndefined,
              sch_profileId = JUndefined \<rparr>
      else case create (scholarshipFields jsonStringify now scholarship) of
        Threw e \<Rightarrow> Inl e
      | Returned records \<Rightarrow>
          (case records of
             [] \<Rightarrow> Inl (TypeError ''Cannot read properties of undefined'')
           | r # rs \<Rightarrow> Inr (mapToScholarship jsonParse now r)))"

section \<open>Student profiles\<close>

text \<open>\<^verbatim>\<open>InsertStudentProfile\<close>, and its \<^verbatim>\<open>Partial\<close>, where \<open>None\<close> is a key the payload omits.\<close>

record InsertStudentProfile =
  isp_name :: string
  isp_email :: string
  isp_phone :: "string option"
  isp_location :: string
  isp_educationLevel :: "string option"
  isp_fieldOfStudy :: "string option"
  isp_gpa :: "string option"
  isp_graduationYear :: "string option"
  isp_skills :: "string list option"
  isp_activities :: "string option"
  isp_financialNeed :: "string option"
  isp_summary :: "string option"
  isp_education :: "string option"
  isp_experience :: "string option"
  isp_projects :: "string option"

record PartialStudentProfile =
  psp_name :: "string option"
  psp_email :: "string option"
  psp_phone :: "string option"
  psp_location :: "string option"
  psp_educationLevel :: "string option"
  psp_fieldOfStudy :: "string option"
  psp_gpa :: "string option"
  psp_graduationYear :: "string option"
  psp_skills :: "string list option"
  psp_activities :: "string option"
  psp_financialNeed :: "string option"
  psp_summary :: "string option"
  psp_education :: "string option"
  psp_experience :: "string option"
  psp_projects :: "string option"

subsection \<open>String helpers of the profile mapper\<close>

fun split :: "char \<Rightarrow> string \<Rightarrow> string list" where
  "split c [] = [[]]"
| "split c (x # xs) =
     (if x = c then [] # split c xs
      else (case split c xs of [] \<Rightarrow> [[x]] | w # ws \<Rightarrow> (x # w) # ws))"

definition isSpace :: "char \<Rightarrow> bool" where
  "isSpace c = (c \<in> set [CHR 0x09, CHR 0x0A, CHR 0x0B, CHR 0x0C, CHR 0x0D, CHR '' ''])"

definition trim :: "string \<Rightarrow> string" where
  "trim s = rev (dropWhile isSpace (rev (dropWhile isSpace s)))"

fun join :: "string \<Rightarrow> string list \<Rightarrow> string" where
  "join sep [] = []"
| "join sep [x] = x"
| "join sep (x # y # ys) = x @ sep @ join sep (y # ys)"

text \<open>
  \<^verbatim>\<open>skillsRaw.split(',')\<close> on a truthy cell that is not a string throws a
  \<^verbatim>\<open>TypeError\<close>, which leaves the mapper.
\<close>

definition mapToStudentProfile :: "string \<Rightarrow> AirtableRecord \<Rightarrow> error + StudentProfile" where
  "mapToStudentProfile now r =
     (let skillsRaw = field r ''Skills'' in
      case (if truthy skillsRaw then
              (case skillsRaw of
                 JStr s \<Rightarrow> Inr (strs (filter (\<lambda>w. w \<noteq> []) (map trim (split CHR '','' s))))
               | _ \<Rightarrow> Inl (TypeError ''skillsRaw.split is not a function''))
            else Inr JUndefined) of
        Inl e \<Rightarrow> Inl e
      | Inr skills \<Rightarrow>
          Inr \<lparr> sp_id = rec_id r,
                sp_name = js_or (field r ''Name'') (JStr []),
                sp_email = js_or (field r ''Email'') (JStr []),
                sp_phone = field r ''Phone'',
                sp_location = js_or (field r ''Location'') (JStr []),
                sp_educationLevel = field r ''EducationLevel'',
                sp_fieldOfStudy = field r ''FieldOfStudy'',
                sp_gpa = field r ''GPA'',
                sp_graduationYear = field r ''GraduationYear'',
                sp_skills = skills,
                sp_activities = field r ''Activities'',
                sp_financialNeed = field r ''FinancialNeed'',
                sp_summary = field r ''Summary'',
                sp_education = field r ''Education'',
                sp_experience = field r ''Experience'',
                sp_projects = field r ''Projects'',
                sp_createdAt = js_or (field r ''CreatedAt'') (JStr now),
                sp_updatedAt = js_or (field r ''UpdatedAt'') (JStr now) \<rparr>)"

subsection \<open>Lookup, creation and update\<close>

definition getStudentProfileById ::
  "Storage \<Rightarrow> string \<Rightarrow> (string \<Rightarrow> AirtableRecord option backend) \<Rightarrow> string \<Rightarrow>
   StudentProfile option \<times> Storage" where
  "getStudentProfileById st now findRecord profileId =
     (case profileStorage st profileId of
        Some memoryProfile \<Rightarrow> (Some memoryProfile, st)
      | None \<Rightarrow>
          (if \<not> useAirtable st then (None, st)
           else case findRecord profileId of
             Threw e \<Rightarrow> (None, st)
           | Returned None \<Rightarrow> (None, st)
           | Returned (Some r) \<Rightarrow>
               (case mapToStudentProfile now r of
                  Inl e \<Rightarrow> (None, st)
                | Inr profile \<Rightarrow>
                    (Some profile,
                     st\<lparr>profileStorage := (profileStorage st)(profileId \<mapsto> profile)\<rparr>))))"

definition profileFields :: "string \<Rightarrow> InsertStudentProfile \<Rightarrow> (string \<times> jsval) list" where
  "profileFields now profile =
     [ (''Name'', JStr (isp_name profile)),
       (''Email'', JStr (isp_email profile)),
       (''Location'', JStr (isp_location profile)),
       (''EducationLevel'', JStr (or_empty (isp_educationLevel profile))),
       (''FieldOfStudy'', JStr (or_empty (isp_fieldOfStudy profile))),
       (''GPA'', JStr (or_empty (isp_gpa profile))),
       (''GraduationYear'', JStr (or_empty (isp_graduationYear profile))),
       (''Skills'', JStr (case isp_skills profile of None \<Rightarrow> [] | Some xs \<Rightarrow> join '', '' xs)),
       (''Activities'', JStr (or_empty (isp_activities profile))),
       (''FinancialNeed'', JStr (or_empty (isp_financialNeed profile))),
       (''CreatedAt'', JStr now),
       (''UpdatedAt'', JStr now) ]"

text \<open>The entity both paths of \<^verbatim>\<open>createStudentProfile\<close> build; they differ in the ID.\<close>

definition newProfile :: "string \<Rightarrow> string \<Rightarrow> InsertStudentProfile \<Rightarrow> StudentProfile" where
  "newProfile i now profile =
     \<lparr> sp_id = i,
       sp_name = JStr (isp_name profile),
       sp_email = JStr (isp_email profile),
       sp_phone = opt_str (isp_phone profile),
       sp_location = JStr (isp_location profile),
       sp_educationLevel = opt_str (isp_educationLevel profile),
       sp_fieldOfStudy = opt_str (isp_fieldOfStudy profile),
       sp_gpa = opt_str (isp_gpa profile),
       sp_graduationYear = opt_str (isp_graduationYear profile),
       sp_skills = opt_strs (isp_skills profile),
       sp_activities = opt_str (isp_activities profile),
       sp_financialNeed = opt_str (isp_financialNeed profile),
       sp_summary = opt_str (isp_summary profile),
       sp_education = opt_str (isp_education profile),
       sp_experience = opt_str (isp_experience profile),
       sp_projects = opt_str (isp_projects profile),
       sp_createdAt = JStr now,
       sp_updatedAt = JStr now \<rparr>"

definition storeProfile :: "Storage \<Rightarrow> StudentProfile \<Rightarrow> StudentProfile \<times> Storage" where
  "storeProfile st p = (p, st\<lparr>profileStorage := (profileStorage st)(sp_id p \<mapsto> p)\<rparr>)"

text \<open>
  The result is a sum so that an exception leaving the function would be \<open>Inl\<close>; every
  branch of the source ends in a \<^verbatim>\<open>return\<close>. A backend that throws, or answers with no
  record (\<^verbatim>\<open>records[0].id\<close> then throws inside the \<^verbatim>\<open>try\<close>), falls through to the
  in-memory path.
\<close>

definition createStudentProfile ::
  "Storage \<Rightarrow> string \<Rightarrow> string \<Rightarrow> ((string \<times> jsval) list \<Rightarrow> AirtableRecord list backend) \<Rightarrow>
   InsertStudentProfile \<Rightarrow> error + (StudentProfile \<times> Storage)" where
  "createStudentProfile st uuid now create profile =
     (if useAirtable st then
        (case create (profileFields now profile) of
           Returned (record # rs) \<Rightarrow> Inr (storeProfile st (newProfile (rec_id record) now profile))
         | Returned [] \<Rightarrow> Inr (storeProfile st (newProfile uuid now profile))
         | Threw e \<Rightarrow> Inr (storeProfile st (newProfile uuid now profile)))
      else Inr (storeProfile st (newProfile uuid now profile)))"

definition overwrite :: "jsval \<Rightarrow> string option \<Rightarrow> jsval" where
  "overwrite old v = (case v of None \<Rightarrow> old | Some s \<Rightarrow> JStr s)"

definition overwrite_list :: "jsval \<Rightarrow> string list option \<Rightarrow> jsval" where
  "overwrite_list old v = (case v of None \<Rightarrow> old | Some xs \<Rightarrow> strs xs)"

definition emptyProfile :: "string \<Rightarrow> string \<Rightarrow> StudentProfile" where
  "emptyProfile i now =
     \<lparr> sp_id = i, sp_name = JStr [], sp_email = JStr [], sp_phone = JUndefined,
       sp_location = JStr [], sp_educationLevel = JUndefined, sp_fieldOfStudy = JUndefined,
       sp_gpa = JUndefined, sp_graduationYear = JUndefined, sp_skills = JUndefined,
       sp_activities = JUndefined, sp_financialNeed = JUndefined, sp_summary = JUndefined,
       sp_education = JUndefined, sp_experience = JUndefined, sp_projects = JUndefined,
       sp_createdAt = JStr now, sp_updatedAt = JStr now \<rparr>"

definition existingProfile :: "Storage \<Rightarrow> string \<Rightarrow> string \<Rightarrow> StudentProfile" where
  "existingProfile st now i =
     (case profileStorage st i of Some p \<Rightarrow> p | None \<Rightarrow> emptyProfile i now)"

text \<open>\<^verbatim>\<open>{ ...existingProfile, ...profile, updatedAt: now }\<close>\<close>

definition mergeProfile :: "StudentProfile \<Rightarrow> PartialStudentProfile \<Rightarrow> string \<Rightarrow> StudentProfile" where
  "mergeProfile old profile now =
     \<lparr> sp_id = sp_id old,
       sp_name = overwrite (sp_name old) (psp_name profile),
       sp_email = overwrite (sp_email old) (psp_email profile),
       sp_phone = overwrite (sp_phone old) (psp_phone profile),
       sp_location = overwrite (sp_location old) (psp_location profile),
       sp_educationLevel = overwrite (sp_educationLevel old) (psp_educationLevel profile),
       sp_fieldOfStudy = overwrite (sp_fieldOfStudy old) (psp_fieldOfStudy profile),
       sp_gpa = overwrite (sp_gpa old) (psp_gpa profile),
       sp_graduationYear = overwrite (sp_graduationYear old) (psp_graduationYear profile),
       sp_skills = overwrite_list (sp_skills old) (psp_skills profile),
       sp_activities = overwrite (sp_activities old) (psp_activities profile),
       sp_financialNeed = overwrite (sp_financialNeed old) (psp_financialNeed profile),
       sp_summary = overwrite (sp_summary old) (psp_summary profile),
       sp_education = overwrite (sp_education old) (psp_education profile),
       sp_experience = overwrite (sp_experience old) (psp_experience profile),
       sp_projects = overwrite (sp_projects old) (psp_projects profile),
       sp_createdAt = sp_createdAt old,
       sp_updatedAt = JStr now \<rparr>"

text \<open>The fields an update sends: a key only for a truthy payload value.\<close>

definition sendIf :: "string \<Rightarrow> string option \<Rightarrow> (string \<times> jsval) list" where
  "sendIf k v = (case v of None \<Rightarrow> [] | Some s \<Rightarrow> (if s \<noteq> [] then [(k, JStr s)] else []))"

definition profileUpdateFields :: "string \<Rightarrow> PartialStudentProfile \<Rightarrow> (string \<times> jsval) list" where
  "profileUpdateFields now profile =
     sendIf ''Name'' (psp_name profile) @ sendIf ''Email'' (psp_email profile)
     @ sendIf ''Location'' (psp_location profile)
     @ sendIf ''EducationLevel'' (psp_educationLevel profile)
     @ sendIf ''FieldOfStudy'' (psp_fieldOfStudy profile)
     @ sendIf ''GPA'' (psp_gpa profile)
     @ sendIf ''GraduationYear'' (psp_graduationYear profile)
     @ (case psp_skills profile of None \<Rightarrow> [] | Some xs \<Rightarrow> [(''Skills'', JStr (join '', '' xs))])
     @ sendIf ''Activities'' (psp_activities profile)
     @ sendIf ''FinancialNeed'' (psp_financialNeed profile)
     @ [(''UpdatedAt'', JStr now)]"

text \<open>
  The backend's answer to the update is logged and dropped: both arms of the \<^verbatim>\<open>try\<close>
  continue with the cache write.
\<close>

definition updateStudentProfile ::
  "Storage \<Rightarrow> string \<Rightarrow> (string \<Rightarrow> (string \<times> jsval) list \<Rightarrow> AirtableRecord list backend) \<Rightarrow>
   string \<Rightarrow> PartialStudentProfile \<Rightarrow> error + (StudentProfile \<times> Storage)" where
  "updateStudentProfile st now update i profile =
     (let updated = mergeProfile (existingProfile st now i) profile now;
          st' = st\<lparr>profileStorage := (profileStorage st)(i \<mapsto> updated)\<rparr>
      in if useAirtable st then
           (case update i (profileUpdateFields now profile) of
              Threw e \<Rightarrow> Inr (updated, st')
            | Returned rs \<Rightarrow> Inr (updated, st'))
         else Inr (updated, st'))"

section \<open>Scholarship matches\<close>

text \<open>
  The match cache only ever receives what \<^verbatim>\<open>createScholarshipMatch\<close> builds from its
  typed input, so a match is typed. A row of the match table is taken as typed as well,
  as the casts of \<^verbatim>\<open>mapToScholarshipMatch\<close> assert (\<^verbatim>\<open>as string\<close>, \<^verbatim>\<open>as number\<close>).
\<close>

record InsertScholarshipMatch =
  im_profileId :: string
  im_scholarshipId :: string
  im_matchScore :: int
  im_aiReasoning :: "string option"
  im_status :: string

record MatchRow =
  row_id :: string
  row_profileId :: string
  row_scholarshipId :: string
  row_matchScore :: int
  row_aiReasoning :: "string option"
  row_status :: string
  row_createdAt :: string

definition mapToScholarshipMatch :: "MatchRow \<Rightarrow> ScholarshipMatch" where
  "mapToScholarshipMatch record =
     \<lparr> m_id = row_id record,
       m_profileId = row_profileId record,
       m_scholarshipId = row_scholarshipId record,
       m_matchScore = row_matchScore record,
       m_aiReasoning = row_aiReasoning record,
       m_status = row_status record,
       m_createdAt = row_createdAt record \<rparr>"

text \<open>\<^verbatim>\<open>{ id, ...match, createdAt: now }\<close>\<close>

definition newMatch :: "string \<Rightarrow> string \<Rightarrow> InsertScholarshipMatch \<Rightarrow> ScholarshipMatch" where
  "newMatch uuid now match =
     \<lparr> m_id = uuid,
       m_profileId = im_profileId match,
       m_scholarshipId = im_scholarshipId match,
       m_matchScore = im_matchScore match,
       m_aiReasoning = im_aiReasoning match,
       m_status = im_status match,
       m_createdAt = now \<rparr>"

text \<open>\<^verbatim>\<open>matchStorage.get(profileId) || []\<close>\<close>

definition existingMatches :: "Storage \<Rightarrow> string \<Rightarrow> ScholarshipMatch list" where
  "existingMatches st profileId = (case matchStorage st profileId of None \<Rightarrow> [] | Some ms \<Rightarrow> ms)"

definition matchFields :: "string \<Rightarrow> string \<Rightarrow> InsertScholarshipMatch \<Rightarrow> (string \<times> jsval) list" where
  "matchFields uuid now match =
     [ (''id'', JStr uuid),
       (''ProfileID'', JStr (im_profileId match)),
       (''ScholarshipID'', JStr (im_scholarshipId match)),
       (''MatchScore'', JNum (of_int (im_matchScore match))),
       (''AIReasoning'', opt_str (im_aiReasoning match)),
       (''Status'', JStr (if im_status match \<noteq> [] then im_status match else ''new'')),
       (''CreatedAt'', JStr now) ]"

text \<open>
  The cache is written before the backend is tried. A backend that throws, or answers
  with no row, leaves the in-memory match as the result.
\<close>

definition createScholarshipMatch ::
  "Storage \<Rightarrow> string \<Rightarrow> string \<Rightarrow> ((string \<times> jsval) list \<Rightarrow> MatchRow list backend) \<Rightarrow>
   InsertScholarshipMatch \<Rightarrow> ScholarshipMatch \<times> Storage" where
  "createScholarshipMatch st uuid now create match =
     (let st' = st\<lparr>matchStorage := (matchStorage st)
                  (im_profileId match \<mapsto> existingMatches st (im_profileId match) @ [newMatch uuid now match])\<rparr>
      in if \<not> useAirtable st then (newMatch uuid now match, st')
         else case create (matchFields uuid now match) of
           Threw e \<Rightarrow> (newMatch uuid now match, st')
         | Returned [] \<Rightarrow> (newMatch uuid now match, st')
         | Returned (record # rs) \<Rightarrow> (mapToScholarshipMatch record, st'))"

text \<open>
  The loop of \<^verbatim>\<open>getScholarshipMatches\<close>: iteration \<open>n\<close> reads the clock \<open>now_at n\<close> and
  gets the backend's answer \<open>find_at n\<close>. A match whose scholarship is not found is
  skipped.
\<close>

fun attachScholarships ::
  "Storage \<Rightarrow> (string \<Rightarrow> jsval option) \<Rightarrow> (nat \<Rightarrow> string) \<Rightarrow>
   (nat \<Rightarrow> string \<Rightarrow> AirtableRecord option backend) \<Rightarrow> nat \<Rightarrow> ScholarshipMatch list \<Rightarrow>
   (ScholarshipMatch \<times> Scholarship) list" where
  "attachScholarships st jsonParse now_at find_at n [] = []"
| "attachScholarships st jsonParse now_at find_at n (match # rest) =
     (case getScholarshipById st jsonParse (now_at n) (find_at n) (m_scholarshipId match) of
        None \<Rightarrow> attachScholarships st jsonParse now_at find_at (Suc n) rest
      | Some scholarship \<Rightarrow>
          (match, scholarship) # attachScholarships st jsonParse now_at find_at (Suc n) rest)"

text \<open>\<^verbatim>\<open>results.sort((a, b) => b.matchScore - a.matchScore)\<close>: stable, highest score first.\<close>

definition sortByScore :: "(ScholarshipMatch \<times> Scholarship) list \<Rightarrow> (ScholarshipMatch \<times> Scholarship) list" where
  "sortByScore results = sort_key (\<lambda>a. - m_matchScore (fst a)) results"

definition getScholarshipMatches ::
  "Storage \<Rightarrow> (string \<Rightarrow> jsval option) \<Rightarrow> (nat \<Rightarrow> string) \<Rightarrow>
   (nat \<Rightarrow> string \<Rightarrow> AirtableRecord option backend) \<Rightarrow> (string \<Rightarrow> MatchRow list backend) \<Rightarrow>
   string \<Rightarrow> (ScholarshipMatch \<times> Scholarship) list" where
  "getScholarshipMatches st jsonParse now_at find_at selectMatches profileId =
     (if existingMatches st profileId \<noteq> [] then
        sortByScore (attachScholarships st jsonParse now_at find_at 0
          (filter (\<lambda>m. m_status m = ''new'') (existingMatches st profileId)))
      else if \<not> useAirtable st then []
      else case selectMatches profileId of
        Threw e \<Rightarrow> []
      | Returned matches \<Rightarrow>
          sortByScore (attachScholarships st jsonParse now_at find_at 0
            (map mapToScholarshipMatch matches)))"

text \<open>
  \<^verbatim>\<open>updateMatchStatus\<close> never touches the cache; the store is returned so that this can be
  stated. \<open>Inl\<close> is the exception the \<^verbatim>\<open>catch\<close> rethrows.
\<close>

definition updateMatchStatus ::
  "Storage \<Rightarrow> string \<Rightarrow> (string \<Rightarrow> string \<Rightarrow> MatchRow list backend) \<Rightarrow> string \<Rightarrow> string \<Rightarrow>
   (error + ScholarshipMatch) \<times> Storage" where
  "updateMatchStatus st now update matchId status =
     (if \<not> useAirtable st then
        (Inr \<lparr> m_id = matchId, m_profileId = [], m_scholarshipId = [], m_matchScore = 0,
               m_aiReasoning = None, m_status = status, m_createdAt = now \<rparr>, st)
      else case update matchId status of
        Threw e \<Rightarrow> (Inl e, st)
      | Returned [] \<Rightarrow> (Inl (TypeError ''Cannot read properties of undefined''), st)
      | Returned (record # rs) \<Rightarrow> (Inr (mapToScholarshipMatch record), st))"

section \<open>Scholarship applications\<close>

record InsertScholarshipApplication =
  iapp_studentProfileId :: string
  iapp_scholarshipId :: string
  iapp_documents :: "string list"
  iapp_status :: string

definition createScholarshipApplication ::
  "Storage \<Rightarrow> string \<Rightarrow> string \<Rightarrow> InsertScholarshipApplication \<Rightarrow> ScholarshipApplication \<times> Storage" where
  "createScholarshipApplication st uuid now application =
     (let newApplication =
            \<lparr> app_id = uuid,
              app_studentProfileId = iapp_studentProfileId application,
              app_scholarshipId = iapp_scholarshipId application,
              app_documents = iapp_documents application,
              app_status = (if iapp_status application \<noteq> [] then iapp_status application else ''pending''),
              app_appliedAt = now \<rparr>;
          existing = (case applicationStorage st (iapp_studentProfileId application) of
                        None \<Rightarrow> [] | Some xs \<Rightarrow> xs)
      in (newApplication,
          st\<lparr>applicationStorage := (applicationStorage st)
               (iapp_studentProfileId application \<mapsto> existing @ [newApplication])\<rparr>))"

definition getApplications :: "Storage \<Rightarrow> string \<Rightarrow> ScholarshipApplication list" where
  "getApplications st profileId = (case applicationStorage st profileId of None \<Rightarrow> [] | Some xs \<Rightarrow> xs)"

section \<open>Request handlers\<close>

text \<open>
  A handler answers with a JSON body or with a status code and a message. A body
  property is \<open>None\<close> when the request leaves it out; \<^verbatim>\<open>!x\<close> holds of an absent and of
  an empty string.
\<close>

datatype 'a response = Json 'a | Status nat string

definition missing :: "string option \<Rightarrow> bool" where
  "missing v = (case v of None \<Rightarrow> True | Some s \<Rightarrow> s = [])"

subsection \<open>POST /api/applications\<close>

record ApplicationBody =
  ab_scholarshipId :: "string option"
  ab_profileId :: "string option"
  ab_documents :: "string list option"
  ab_status :: "string option"

definition isPdf :: "string \<Rightarrow> bool" where
  "isPdf doc = endsWith (toLowerCase doc) ''.pdf''"

text \<open>
  The handler binds \<^verbatim>\<open>status\<close> from the body (default \<^verbatim>\<open>"draft"\<close>) and never reads it.
  With no \<^verbatim>\<open>documents\<close> in the body, \<^verbatim>\<open>documents.filter\<close> throws and the \<^verbatim>\<open>catch\<close>
  answers 500.
\<close>

definition postApplications ::
  "Storage \<Rightarrow> string \<Rightarrow> string \<Rightarrow> ApplicationBody \<Rightarrow> ScholarshipApplication response \<times> Storage" where
  "postApplications st uuid now body =
     (if missing (ab_profileId body) then (Status 400 ''Profile ID is required'', st)
      else if missing (ab_scholarshipId body) then (Status 400 ''Scholarship ID is required'', st)
      else case ab_documents body of
        None \<Rightarrow> (Status 500 ''Failed to create application'', st)
      | Some documents \<Rightarrow>
          (let invalidDocs = filter (\<lambda>doc. \<not> isPdf doc) documents in
           if invalidDocs \<noteq> [] then (Status 400 ''Only PDF documents are allowed'', st)
           else
             (case createScholarshipApplication st uuid now
                     \<lparr> iapp_studentProfileId = or_empty (ab_profileId body),
                       iapp_scholarshipId = or_empty (ab_scholarshipId body),
                       iapp_documents = documents,
                       iapp_status = ''pending'' \<rparr> of
                (application, st') \<Rightarrow> (Json application, st'))))"

subsection \<open>POST /api/matches/generate\<close>

text \<open>
  What one request reads from outside: the clock, the backend's answers, and for the
  \<open>n\<close>-th scholarship of the loop a draw of \<^verbatim>\<open>Math.random()\<close>, a UUID, the clock and the
  backend's answer to the create. The draw is a real number; the rounding of the
  floating-point product is not modelled.
\<close>

record GenerateEnv =
  ge_now :: string
  ge_findProfile :: "string \<Rightarrow> AirtableRecord option backend"
  ge_jsonParse :: "string \<Rightarrow> jsval option"
  ge_selectAll :: "AirtableRecord list backend"
  ge_random :: "nat \<Rightarrow> real"
  ge_uuid :: "nat \<Rightarrow> string"
  ge_now_at :: "nat \<Rightarrow> string"
  ge_create :: "nat \<Rightarrow> (string \<times> jsval) list \<Rightarrow> MatchRow list backend"

definition placeholderReasoning :: string where
  "placeholderReasoning = ''Pre-stored scholarship. AI matching will be enabled soon.''"

definition matchScore :: "real \<Rightarrow> int" where
  "matchScore r = \<lfloor>r * 40\<rfloor> + 60"

fun createMatches ::
  "Storage \<Rightarrow> GenerateEnv \<Rightarrow> string \<Rightarrow> nat \<Rightarrow> Scholarship list \<Rightarrow> ScholarshipMatch list \<times> Storage" where
  "createMatches st env profileId n [] = ([], st)"
| "createMatches st env profileId n (s # rest) =
     (case createScholarshipMatch st (ge_uuid env n) (ge_now_at env n) (ge_create env n)
             \<lparr> im_profileId = profileId,
               im_scholarshipId = sch_id s,
               im_matchScore = matchScore (ge_random env n),
               im_aiReasoning = Some placeholderReasoning,
               im_status = ''new'' \<rparr> of
        (match, st1) \<Rightarrow>
          (case createMatches st1 env profileId (Suc n) rest of
             (createdMatches, st2) \<Rightarrow> (match # createdMatches, st2)))"

definition postMatchesGenerate ::
  "Storage \<Rightarrow> GenerateEnv \<Rightarrow> string option \<Rightarrow> ScholarshipMatch list response \<times> Storage" where
  "postMatchesGenerate st env profileId =
     (if missing profileId then (Status 400 ''Profile ID is required'', st)
      else case getStudentProfileById st (ge_now env) (ge_findProfile env) (or_empty profileId) of
        (None, st1) \<Rightarrow> (Status 404 ''Profile not found'', st1)
      | (Some profile, st1) \<Rightarrow>
          (case createMatches st1 env (or_empty profileId) 0
                  (getAllScholarships st1 (ge_jsonParse env) (ge_now env) (ge_selectAll env)) of
             (createdMatches, st2) \<Rightarrow> (Json createdMatches, st2)))"

section \<open>Sample data\<close>

text \<open>
  Concrete inputs for the examples that follow the theorems. \<open>initialStorage\<close> is the
  store as the module leaves it at start-up: all three maps empty.
\<close>

definition initialStorage :: "bool \<Rightarrow> Storage" where
  "initialStorage b =
     \<lparr> useAirtable = b, profileStorage = Map.empty, matchStorage = Map.empty,
       applicationStorage = Map.empty \<rparr>"

text \<open>
  Stand-ins for \<^verbatim>\<open>JSON.stringify\<close> and \<^verbatim>\<open>JSON.parse\<close>. The first is right on arrays of
  strings that need no escaping; the second is right on the texts the examples use:
  \<^verbatim>\<open>[]\<close>, \<^verbatim>\<open>5\<close>, the two arrays of the sample scholarship, and \<^verbatim>\<open>not json\<close>, which is
  a syntax error.
\<close>

fun sampleJsonStringify :: "jsval \<Rightarrow> string" where
  "sampleJsonStringify (JStr s) = CHR 0x22 # s @ [CHR 0x22]"
| "sampleJsonStringify (JArr xs) = ''['' @ join '','' (map sampleJsonStringify xs) @ '']''"
| "sampleJsonStringify (JNum r) = (if r = 5 then ''5'' else ''null'')"
| "sampleJsonStringify (JBool b) = (if b then ''true'' else ''false'')"
| "sampleJsonStringify v = ''null''"

definition sampleJsonParse :: "string \<Rightarrow> jsval option" where
  \<open>sampleJsonParse s =
     (if s = ''[]'' then Some (JArr [])
      else if s = ''5'' then Some (JNum 5)
      else if s = ''["internship","aerospace","stem"]''
        then Some (JArr [JStr ''internship'', JStr ''aerospace'', JStr ''stem''])
      else if s = ''["Engineering","Physics"]''
        then Some (JArr [JStr ''Engineering'', JStr ''Physics''])
      else None)\<close>

definition sampleNow :: string where
  "sampleNow = ''2025-01-01T00:00:00.000Z''"

definition sampleUuid :: string where
  "sampleUuid = ''3b241101-e2bb-4255-8caf-4136c566a962''"

definition sampleScholarship :: InsertScholarship where
  "sampleScholarship =
     \<lparr> isc_title = ''NASA Summer Internship'',
       isc_organization = ''NASA'',
       isc_amount = rupee @ ''6,19,500'',
       isc_deadline = ''2025-01-31'',
       isc_description = ''Internship in aerospace engineering.'',
       isc_requirements = ''STEM major, 3.0+ GPA'',
       isc_tags = [''internship'', ''aerospace'', ''stem''],
       isc_type = ''internship'',
       isc_eligibilityGpa = Some ''3.0'',
       isc_eligibleFields = Some [''Engineering'', ''Physics''],
       isc_eligibleLevels = None,
       isc_isActive = True \<rparr>"

text \<open>A backend that cannot be reached, and one that keeps what it is sent under the ID \<open>rid\<close>.\<close>

definition backendDown :: "'a \<Rightarrow> 'b backend" where
  "backendDown request = Threw (BackendError ''ECONNREFUSED'')"

definition echoCreate :: "string \<Rightarrow> (string \<times> jsval) list \<Rightarrow> AirtableRecord list backend" where
  "echoCreate rid flds = Returned [\<lparr> rec_id = rid, rec_fields = flds \<rparr>]"

definition echoFind :: "AirtableRecord \<Rightarrow> string \<Rightarrow> AirtableRecord option backend" where
  "echoFind r i = (if i = rec_id r then Returned (Some r) else Returned None)"

definition sampleStoredRow :: AirtableRecord where
  "sampleStoredRow =
     \<lparr> rec_id = ''recNASA0001'',
       rec_fields = scholarshipFields sampleJsonStringify sampleNow sampleScholarship \<rparr>"

definition sampleProfileInput :: InsertStudentProfile where
  "sampleProfileInput =
     \<lparr> isp_name = ''Asha Rao'',
       isp_email = ''asha@example.org'',
       isp_phone = None,
       isp_location = ''Pune'',
       isp_educationLevel = Some ''undergraduate'',
       isp_fieldOfStudy = Some ''Physics'',
       isp_gpa = Some ''3.6'',
       isp_graduationYear = None,
       isp_skills = Some [''Python'', ''LaTeX''],
       isp_activities = None,
       isp_financialNeed = None,
       isp_summary = None,
       isp_education = None,
       isp_experience = None,
       isp_projects = None \<rparr>"

definition sampleRow :: AirtableRecord where
  "sampleRow =
     \<lparr> rec_id = ''rec1'',
       rec_fields = [(''Tags'', JStr ''not json''), (''EligibleFields'', JStr ''not json''),
                     (''EligibleLevels'', JStr ''not json'')] \<rparr>"

definition sampleLater :: string where
  "sampleLater = ''2025-02-01T09:30:00.000Z''"

text \<open>A store that holds the sample profile under the ID \<^verbatim>\<open>p1\<close>.\<close>

definition sampleCachedStorage :: "bool \<Rightarrow> Storage" where
  "sampleCachedStorage b =
     (initialStorage b)\<lparr>profileStorage := [''p1'' \<mapsto> newProfile ''p1'' sampleNow sampleProfileInput]\<rparr>"

definition samplePayload :: PartialStudentProfile where
  "samplePayload =
     \<lparr> psp_name = None, psp_email = None, psp_phone = Some ''+91 20 5550 0100'',
       psp_location = None, psp_educationLevel = None, psp_fieldOfStudy = None,
       psp_gpa = Some ''3.9'', psp_graduationYear = None, psp_skills = None,
       psp_activities = None, psp_financialNeed = None, psp_summary = None,
       psp_education = None, psp_experience = None, psp_projects = None \<rparr>"

definition sampleEnv :: GenerateEnv where
  "sampleEnv =
     \<lparr> ge_now = sampleNow,
       ge_findProfile = backendDown,
       ge_jsonParse = sampleJsonParse,
       ge_selectAll = Threw (BackendError ''ECONNREFUSED''),
       ge_random = (\<lambda>n. 1 / (real n + 2)),
       ge_uuid = (\<lambda>n. ''match-'' @ replicate n CHR ''i''),
       ge_now_at = (\<lambda>n. sampleNow),
       ge_create = (\<lambda>n. backendDown) \<rparr>"

text \<open>A store with no backend that holds two new matches of the profile \<^verbatim>\<open>p1\<close>.\<close>

definition sampleMatchStorage :: Storage where
  "sampleMatchStorage =
     (sampleCachedStorage False)\<lparr>matchStorage :=
        [''p1'' \<mapsto>
           [\<lparr> m_id = ''match-1'', m_profileId = ''p1'', m_scholarshipId = ''fallback-1'',
               m_matchScore = 72, m_aiReasoning = Some placeholderReasoning, m_status = ''new'',
               m_createdAt = sampleNow \<rparr>,
            \<lparr> m_id = ''match-2'', m_profileId = ''p1'', m_scholarshipId = ''fallback-2'',
               m_matchScore = 91, m_aiReasoning = Some placeholderReasoning, m_status = ''new'',
               m_createdAt = sampleNow \<rparr>]]\<rparr>"

definition sampleApplicationBody :: "string list \<Rightarrow> string option \<Rightarrow> ApplicationBody" where
  "sampleApplicationBody documents status =
     \<lparr> ab_scholarshipId = Some ''fallback-1'', ab_profileId = Some ''p1'',
       ab_documents = Some documents, ab_status = status \<rparr>"

definition sampleListRow :: AirtableRecord where
  "sampleListRow =
     \<lparr> rec_id = ''rec2'',
       rec_fields = [(''tags'', JArr [JStr ''STEM'', JStr ''Research'']),
                     (''EligibleFields'', JStr ''[]''), (''eligibleLevels'', JStr ''5'')] \<rparr>"

text \<open>The row a backend holds for the sample profile once its create has been sent.\<close>

definition sampleProfileRow :: AirtableRecord where
  "sampleProfileRow =
     \<lparr> rec_id = ''recPROFILE01'', rec_fields = profileFields sampleNow sampleProfileInput \<rparr>"

section \<open>Verified properties\<close>

subsection \<open>The fallback catalog\<close>

lemma length_getFallbackScholarships: "length (getFallbackScholarships now) = 6"
  by (simp add: getFallbackScholarships_def)

lemma ids_getFallbackScholarships:
  "map sch_id (getFallbackScholarships now) =
     [''fallback-1'', ''fallback-2'', ''fallback-3'', ''fallback-4'', ''fallback-5'', ''fallback-6'']"
  by (simp add: getFallbackScholarships_def fallbackEntry_def)

text \<open>
  Claim C6. With no backend configured, or when the backend call throws, listing the
  scholarships returns the fallback catalog: its six entries, and never the empty list.
\<close>

theorem getAllScholarships_unavailable:
  assumes "\<not> useAirtable st \<or> selectAll = Threw e"
  shows "getAllScholarships st jsonParse now selectAll = getFallbackScholarships now
       \<and> length (getAllScholarships st jsonParse now selectAll) = 6
       \<and> getAllScholarships st jsonParse now selectAll \<noteq> []"
proof -
  have eq: "getAllScholarships st jsonParse now selectAll = getFallbackScholarships now"
    using assms by (auto simp: getAllScholarships_def)
  have "getFallbackScholarships now \<noteq> []"
    using length_getFallbackScholarships [of now] by auto
  with eq show ?thesis by (simp add: length_getFallbackScholarships)
qed

theorem getAllScholarships_unavailable_witness:
  "getAllScholarships (initialStorage False) sampleJsonParse sampleNow (Returned [])
     = getFallbackScholarships sampleNow
   \<and> length (getAllScholarships (initialStorage True) sampleJsonParse sampleNow
        (Threw (BackendError ''timeout''))) = 6"
proof -
  have a: "\<not> useAirtable (initialStorage False) \<or> Returned [] = Threw (BackendError ''timeout'')"
    by (simp add: initialStorage_def)
  have b: "\<not> useAirtable (initialStorage True)
           \<or> Threw (BackendError ''timeout'') = (Threw (BackendError ''timeout'') :: AirtableRecord list backend)"
    by simp
  show ?thesis
    using getAllScholarships_unavailable [OF a, of sampleJsonParse sampleNow]
          getAllScholarships_unavailable [OF b, of sampleJsonParse sampleNow]
    by blast
qed

subsection \<open>Listing never comes back empty\<close>

lemma mapToScholarship_default_title:
  "\<not> truthy (field r ''Title'') \<Longrightarrow> \<not> truthy (field r ''title'') \<Longrightarrow>
   sch_title (mapToScholarship jsonParse now r) = JStr ''Untitled Scholarship''"
  by (simp add: mapToScholarship_def js_or_def)

lemma hasValidData_default_title:
  "\<forall>s \<in> set ss. sch_title s = JStr ''Untitled Scholarship'' \<Longrightarrow> \<not> hasValidData ss"
  by (simp add: hasValidData_def list_ex_iff)

lemma getAllScholarships_cases:
  "getAllScholarships st jsonParse now selectAll = getFallbackScholarships now
   \<or> (\<exists>records. selectAll = Returned records \<and> records \<noteq> []
        \<and> hasValidData (map (mapToScholarship jsonParse now) records)
        \<and> getAllScholarships st jsonParse now selectAll = map (mapToScholarship jsonParse now) records)"
  by (auto simp: getAllScholarships_def Let_def split: backend.splits)

text \<open>
  Claim C8. Listing the scholarships never returns the empty list, in either mode and
  whatever the backend answers. The fallback catalog is returned when the backend
  answers with no record, when every record lacks a title and an organization under
  both spellings of the field names, and when every record is mapped to the default
  title and the default organization.
\<close>

theorem getAllScholarships_never_empty:
  "getAllScholarships st jsonParse now selectAll \<noteq> []
   \<and> (selectAll = Returned [] \<longrightarrow>
        getAllScholarships st jsonParse now selectAll = getFallbackScholarships now)
   \<and> (selectAll = Returned records
        \<and> (\<forall>r \<in> set records. \<not> truthy (field r ''Title'') \<and> \<not> truthy (field r ''title'')
              \<and> \<not> truthy (field r ''Organization'') \<and> \<not> truthy (field r ''organization'')) \<longrightarrow>
        getAllScholarships st jsonParse now selectAll = getFallbackScholarships now)
   \<and> (selectAll = Returned records
        \<and> (\<forall>r \<in> set records.
              sch_title (mapToScholarship jsonParse now r) = JStr ''Untitled Scholarship''
              \<and> sch_organization (mapToScholarship jsonParse now r) = JStr ''Unknown Organization'') \<longrightarrow>
        getAllScholarships st jsonParse now selectAll = getFallbackScholarships now)"
proof (intro conjI impI)
  have ne: "getFallbackScholarships now \<noteq> []"
    using length_getFallbackScholarships [of now] by auto
  show "getAllScholarships st jsonParse now selectAll \<noteq> []"
    using getAllScholarships_cases [of st jsonParse now selectAll] ne by auto
next
  assume "selectAll = Returned []"
  then show "getAllScholarships st jsonParse now selectAll = getFallbackScholarships now"
    by (simp add: getAllScholarships_def)
next
  assume a: "selectAll = Returned records
        \<and> (\<forall>r \<in> set records. \<not> truthy (field r ''Title'') \<and> \<not> truthy (field r ''title'')
              \<and> \<not> truthy (field r ''Organization'') \<and> \<not> truthy (field r ''organization''))"
  then have "\<forall>s \<in> set (map (mapToScholarship jsonParse now) records).
               sch_title s = JStr ''Untitled Scholarship''"
    by (auto simp: mapToScholarship_default_title)
  then have "\<not> hasValidData (map (mapToScholarship jsonParse now) records)"
    by (rule hasValidData_default_title)
  with a show "getAllScholarships st jsonParse now selectAll = getFallbackScholarships now"
    using getAllScholarships_cases [of st jsonParse now selectAll] by auto
next
  assume a: "selectAll = Returned records
        \<and> (\<forall>r \<in> set records.
              sch_title (mapToScholarship jsonParse now r) = JStr ''Untitled Scholarship''
              \<and> sch_organization (mapToScholarship jsonParse now r) = JStr ''Unknown Organization'')"
  then have "\<forall>s \<in> set (map (mapToScholarship jsonParse now) records).
               sch_title s = JStr ''Untitled Scholarship''"
    by auto
  then have "\<not> hasValidData (map (mapToScholarship jsonParse now) records)"
    by (rule hasValidData_default_title)
  with a show "getAllScholarships st jsonParse now selectAll = getFallbackScholarships now"
    using getAllScholarships_cases [of st jsonParse now selectAll] by auto
qed

theorem getAllScholarships_never_empty_witness:
  "getAllScholarships (initialStorage True) sampleJsonParse sampleNow
     (Returned [\<lparr> rec_id = ''rec1'', rec_fields = [(''Amount'', JStr ''100'')] \<rparr>,
                \<lparr> rec_id = ''rec2'', rec_fields = [(''Title'', JStr [])] \<rparr>])
   = getFallbackScholarships sampleNow"
  using getAllScholarships_never_empty [of "initialStorage True" sampleJsonParse sampleNow
     "Returned [\<lparr> rec_id = ''rec1'', rec_fields = [(''Amount'', JStr ''100'')] \<rparr>,
                \<lparr> rec_id = ''rec2'', rec_fields = [(''Title'', JStr [])] \<rparr>]"
     "[\<lparr> rec_id = ''rec1'', rec_fields = [(''Amount'', JStr ''100'')] \<rparr>,
       \<lparr> rec_id = ''rec2'', rec_fields = [(''Title'', JStr [])] \<rparr>]"]
  by (simp add: field_def)


subsection \<open>The list-typed fields of the scholarship mapper\<close>

lemma parseListField_array: "parseListField jsonParse dflt (JArr xs) = JArr xs"
  by (simp add: parseListField_def)

lemma parseListField_parsed:
  "t \<noteq> [] \<Longrightarrow> jsonParse t = Some v \<Longrightarrow> parseListField jsonParse dflt (JStr t) = v"
  by (simp add: parseListField_def)

lemma parseListField_failure:
  "jsonParse t = None \<Longrightarrow> parseListField jsonParse dflt (JStr t) = dflt"
  by (simp add: parseListField_def)

text \<open>
  A parse failure does not give the empty list in every list-typed field: a cell of
  eligible fields that is not JSON leaves the field \<^verbatim>\<open>undefined\<close>.
\<close>

theorem mapToScholarship_parse_failure_counterexample:
  "sampleJsonParse ''not json'' = None
   \<and> sch_eligibleFields (mapToScholarship sampleJsonParse sampleNow
        \<lparr> rec_id = ''rec1'', rec_fields = [(''EligibleFields'', JStr ''not json'')] \<rparr>) = JUndefined
   \<and> sch_eligibleFields (mapToScholarship sampleJsonParse sampleNow
        \<lparr> rec_id = ''rec1'', rec_fields = [(''EligibleFields'', JStr ''not json'')] \<rparr>) \<noteq> JArr []"
  by (simp add: sampleJsonParse_def mapToScholarship_def fieldsRaw_def field_def js_or_def
        parseListField_def)

text \<open>
  Claim C4, as amended. For every raw record, each list-typed field (tags, eligible
  fields, eligible levels) passes a native list through and takes what \<^verbatim>\<open>JSON.parse\<close>
  returns for a non-empty string; a parse failure gives the empty list for the tags and
  \<^verbatim>\<open>undefined\<close> for the eligible fields and the eligible levels. The mapper returns an
  entity in every case, so no parse error reaches the caller.
\<close>

theorem mapToScholarship_list_fields:
  "(tagsRaw r = JArr xs \<longrightarrow> sch_tags (mapToScholarship jsonParse now r) = JArr xs)
   \<and> (tagsRaw r = JStr t \<and> t \<noteq> [] \<and> jsonParse t = Some v \<longrightarrow>
        sch_tags (mapToScholarship jsonParse now r) = v)
   \<and> (tagsRaw r = JStr t \<and> jsonParse t = None \<longrightarrow>
        sch_tags (mapToScholarship jsonParse now r) = JArr [])
   \<and> (fieldsRaw r = JArr xs \<longrightarrow> sch_eligibleFields (mapToScholarship jsonParse now r) = JArr xs)
   \<and> (fieldsRaw r = JStr t \<and> t \<noteq> [] \<and> jsonParse t = Some v \<longrightarrow>
        sch_eligibleFields (mapToScholarship jsonParse now r) = v)
   \<and> (fieldsRaw r = JStr t \<and> jsonParse t = None \<longrightarrow>
        sch_eligibleFields (mapToScholarship jsonParse now r) = JUndefined)
   \<and> (levelsRaw r = JArr xs \<longrightarrow> sch_eligibleLevels (mapToScholarship jsonParse now r) = JArr xs)
   \<and> (levelsRaw r = JStr t \<and> t \<noteq> [] \<and> jsonParse t = Some v \<longrightarrow>
        sch_eligibleLevels (mapToScholarship jsonParse now r) = v)
   \<and> (levelsRaw r = JStr t \<and> jsonParse t = None \<longrightarrow>
        sch_eligibleLevels (mapToScholarship jsonParse now r) = JUndefined)"
  by (simp add: mapToScholarship_def parseListField_array parseListField_parsed
        parseListField_failure)

theorem mapToScholarship_list_fields_witness:
  "tagsRaw sampleRow = JStr ''not json'' \<and> sampleJsonParse ''not json'' = None
   \<and> sch_tags (mapToScholarship sampleJsonParse sampleNow sampleRow) = JArr []
   \<and> sch_eligibleFields (mapToScholarship sampleJsonParse sampleNow sampleRow) = JUndefined
   \<and> sch_eligibleLevels (mapToScholarship sampleJsonParse sampleNow sampleRow) = JUndefined
   \<and> sch_tags (mapToScholarship sampleJsonParse sampleNow sampleListRow)
       = JArr [JStr ''STEM'', JStr ''Research'']
   \<and> sch_eligibleFields (mapToScholarship sampleJsonParse sampleNow sampleListRow) = JArr []"
proof -
  have raw: "tagsRaw sampleRow = JStr ''not json'' \<and> fieldsRaw sampleRow = JStr ''not json''
             \<and> levelsRaw sampleRow = JStr ''not json''"
    by (simp add: sampleRow_def tagsRaw_def fieldsRaw_def levelsRaw_def field_def js_or_def)
  have fail: "sampleJsonParse ''not json'' = None"
    by (simp add: sampleJsonParse_def)
  have raw2: "tagsRaw sampleListRow = JArr [JStr ''STEM'', JStr ''Research'']
              \<and> fieldsRaw sampleListRow = JStr ''[]''"
    by (simp add: sampleListRow_def tagsRaw_def fieldsRaw_def field_def js_or_def)
  have parsed: "''[]'' \<noteq> [] \<and> sampleJsonParse ''[]'' = Some (JArr [])"
    by (simp add: sampleJsonParse_def)
  show ?thesis
    using raw fail raw2 parsed
      mapToScholarship_list_fields [of sampleRow "[]" sampleJsonParse sampleNow "''not json''" JNull]
      mapToScholarship_list_fields [of sampleListRow "[JStr ''STEM'', JStr ''Research'']"
        sampleJsonParse sampleNow "''[]''" "JArr []"]
    by blast
qed

subsection \<open>Creating a scholarship and fetching it back\<close>

lemma findById_not_fallback:
  "\<not> startsWith i ''fallback-'' \<Longrightarrow> findById i (getFallbackScholarships now) = None"
  by (auto simp: findById_def getFallbackScholarships_def fallbackEntry_def startsWith_def)

text \<open>
  With no backend configured the created scholarship is kept nowhere: fetching it by
  the ID that the create returned finds nothing.
\<close>

theorem createScholarship_roundtrip_counterexample:
  "map_sum id sch_id
     (createScholarship (initialStorage False) sampleJsonStringify sampleJsonParse sampleUuid
        sampleNow backendDown sampleScholarship) = Inr sampleUuid
   \<and> getScholarshipById (initialStorage False) sampleJsonParse sampleNow backendDown sampleUuid = None"
  by (simp add: createScholarship_def initialStorage_def getScholarshipById_def
        findById_not_fallback startsWith_def sampleUuid_def)

lemma field_scholarshipFields:
  "field \<lparr> rec_id = rid, rec_fields = scholarshipFields js now input \<rparr> k =
     (if k = ''Title'' then JStr (isc_title input)
      else if k = ''Organization'' then JStr (isc_organization input)
      else if k = ''Amount'' then JStr (isc_amount input)
      else if k = ''Deadline'' then JStr (isc_deadline input)
      else if k = ''Description'' then JStr (isc_description input)
      else if k = ''Requirements'' then JStr (isc_requirements input)
      else if k = ''Tags'' then JStr (js (strs (isc_tags input)))
      else if k = ''Type'' then JStr (isc_type input)
      else if k = ''EligibilityGpa'' then JStr (or_empty (isc_eligibilityGpa input))
      else if k = ''EligibleFields'' then JStr (js (strs (or_nil (isc_eligibleFields input))))
      else if k = ''EligibleLevels'' then JStr (js (strs (or_nil (isc_eligibleLevels input))))
      else if k = ''CreatedAt'' then JStr now
      else JUndefined)"
  by (simp add: field_def scholarshipFields_def)

lemma mapToScholarship_echo:
  assumes "isc_title input \<noteq> []" "isc_organization input \<noteq> []" "isc_amount input \<noteq> []"
    "isc_deadline input \<noteq> []" "isc_description input \<noteq> []" "isc_requirements input \<noteq> []"
    "isc_type input \<noteq> []"
    "jsonRoundTrip js jp (strs (isc_tags input))"
    "jsonRoundTrip js jp (strs (or_nil (isc_eligibleFields input)))"
    "jsonRoundTrip js jp (strs (or_nil (isc_eligibleLevels input)))"
  shows "mapToScholarship jp later \<lparr> rec_id = rid, rec_fields = scholarshipFields js now input \<rparr> =
     \<lparr> sch_id = rid,
       sch_title = JStr (isc_title input),
       sch_organization = JStr (isc_organization input),
       sch_amount = JStr (isc_amount input),
       sch_deadline = JStr (isc_deadline input),
       sch_description = JStr (isc_description input),
       sch_requirements = JStr (isc_requirements input),
       sch_tags = strs (isc_tags input),
       sch_type = JStr (isc_type input),
       sch_eligibilityGpa =
         (if or_empty (isc_eligibilityGpa input) \<noteq> [] then JStr (or_empty (isc_eligibilityGpa input))
          else JUndefined),
       sch_eligibleFields = strs (or_nil (isc_eligibleFields input)),
       sch_eligibleLevels = strs (or_nil (isc_eligibleLevels input)),
       sch_isActive = True,
       sch_createdAt = (if now \<noteq> [] then JStr now else JStr later),
       sch_notes = JUndefined,
       sch_profileId = JUndefined \<rparr>"
  using assms
  by (simp add: mapToScholarship_def field_scholarshipFields js_or_def tagsRaw_def fieldsRaw_def
        levelsRaw_def parseListField_def jsonRoundTrip_def)

text \<open>
  Claim C5, as amended. With no backend configured, a create returns the input under
  the fresh ID, field for field and stamped with the current time, stores nothing, and a
  fetch by that ID finds nothing. With a backend that keeps the fields it is sent and
  returns them on lookup under an ID that does not start with \<^verbatim>\<open>fallback-\<close>, for an input
  whose title, organization, amount, deadline, description, requirements and type are
  non-empty, whose title is not the mapper's default title, and whose list fields survive
  \<^verbatim>\<open>JSON.stringify\<close> and \<^verbatim>\<open>JSON.parse\<close>, the fetch by the returned ID yields an entity
  equal to the input on title, organization, amount, deadline, description, requirements,
  tags, type and a non-empty eligibility GPA; an eligible-fields or eligible-levels list
  that the input leaves out comes back as the empty list.
\<close>

theorem createScholarship_roundtrip:
  "(\<not> useAirtable st \<and> \<not> startsWith uuid ''fallback-'' \<longrightarrow>
      (\<exists>created.
          createScholarship st jsonStringify jsonParse uuid now create input = Inr created
        \<and> sch_id created = uuid
        \<and> sch_title created = JStr (isc_title input)
        \<and> sch_organization created = JStr (isc_organization input)
        \<and> sch_amount created = JStr (isc_amount input)
        \<and> sch_deadline created = JStr (isc_deadline input)
        \<and> sch_description created = JStr (isc_description input)
        \<and> sch_requirements created = JStr (isc_requirements input)
        \<and> sch_tags created = strs (isc_tags input)
        \<and> sch_type created = JStr (isc_type input)
        \<and> sch_eligibilityGpa created = opt_str (isc_eligibilityGpa input)
        \<and> sch_eligibleFields created = opt_strs (isc_eligibleFields input)
        \<and> sch_eligibleLevels created = opt_strs (isc_eligibleLevels input)
        \<and> sch_isActive created = isc_isActive input
        \<and> sch_createdAt created = JStr now
        \<and> getScholarshipById st jsonParse later findRecord (sch_id created) = None))
   \<and> (useAirtable st
       \<and> create (scholarshipFields jsonStringify now input)
           = Returned [\<lparr> rec_id = rid, rec_fields = scholarshipFields jsonStringify now input \<rparr>]
       \<and> findRecord rid
           = Returned (Some \<lparr> rec_id = rid, rec_fields = scholarshipFields jsonStringify now input \<rparr>)
       \<and> \<not> startsWith rid ''fallback-''
       \<and> isc_title input \<noteq> [] \<and> isc_organization input \<noteq> [] \<and> isc_amount input \<noteq> []
       \<and> isc_deadline input \<noteq> [] \<and> isc_description input \<noteq> [] \<and> isc_requirements input \<noteq> []
       \<and> isc_type input \<noteq> []
       \<and> isc_title input \<noteq> ''Untitled Scholarship''
       \<and> jsonRoundTrip jsonStringify jsonParse (strs (isc_tags input))
       \<and> jsonRoundTrip jsonStringify jsonParse (strs (or_nil (isc_eligibleFields input)))
       \<and> jsonRoundTrip jsonStringify jsonParse (strs (or_nil (isc_eligibleLevels input))) \<longrightarrow>
      (\<exists>created fetched.
          createScholarship st jsonStringify jsonParse uuid now create input = Inr created
        \<and> sch_id created = rid
        \<and> getScholarshipById st jsonParse later findRecord (sch_id created) = Some fetched
        \<and> sch_id fetched = sch_id created
        \<and> sch_title fetched = JStr (isc_title input)
        \<and> sch_organization fetched = JStr (isc_organization input)
        \<and> sch_amount fetched = JStr (isc_amount input)
        \<and> sch_deadline fetched = JStr (isc_deadline input)
        \<and> sch_description fetched = JStr (isc_description input)
        \<and> sch_requirements fetched = JStr (isc_requirements input)
        \<and> sch_tags fetched = strs (isc_tags input)
        \<and> sch_type fetched = JStr (isc_type input)
        \<and> sch_eligibilityGpa fetched =
             (if or_empty (isc_eligibilityGpa input) \<noteq> [] then JStr (or_empty (isc_eligibilityGpa input))
              else JUndefined)
        \<and> sch_eligibleFields fetched = strs (or_nil (isc_eligibleFields input))
        \<and> sch_eligibleLevels fetched = strs (or_nil (isc_eligibleLevels input))))"
proof (intro conjI impI)
  assume a: "\<not> useAirtable st \<and> \<not> startsWith uuid ''fallback-''"
  then have g: "getScholarshipById st jsonParse later findRecord uuid = None"
    by (simp add: getScholarshipById_def findById_not_fallback)
  from a g show "\<exists>created.
          createScholarship st jsonStringify jsonParse uuid now create input = Inr created
        \<and> sch_id created = uuid
        \<and> sch_title created = JStr (isc_title input)
        \<and> sch_organization created = JStr (isc_organization input)
        \<and> sch_amount created = JStr (isc_amount input)
        \<and> sch_deadline created = JStr (isc_deadline input)
        \<and> sch_description created = JStr (isc_description input)
        \<and> sch_requirements created = JStr (isc_requirements input)
        \<and> sch_tags created = strs (isc_tags input)
        \<and> sch_type created = JStr (isc_type input)
        \<and> sch_eligibilityGpa created = opt_str (isc_eligibilityGpa input)
        \<and> sch_eligibleFields created = opt_strs (isc_eligibleFields input)
        \<and> sch_eligibleLevels created = opt_strs (isc_eligibleLevels input)
        \<and> sch_isActive created = isc_isActive input
        \<and> sch_createdAt created = JStr now
        \<and> getScholarshipById st jsonParse later findRecord (sch_id created) = None"
    by (simp add: createScholarship_def)
next
  assume a: "useAirtable st
       \<and> create (scholarshipFields jsonStringify now input)
           = Returned [\<lparr> rec_id = rid, rec_fields = scholarshipFields jsonStringify now input \<rparr>]
       \<and> findRecord rid
           = Returned (Some \<lparr> rec_id = rid, rec_fields = scholarshipFields jsonStringify now input \<rparr>)
       \<and> \<not> startsWith rid ''fallback-''
       \<and> isc_title input \<noteq> [] \<and> isc_organization input \<noteq> [] \<and> isc_amount input \<noteq> []
       \<and> isc_deadline input \<noteq> [] \<and> isc_description input \<noteq> [] \<and> isc_requirements input \<noteq> []
       \<and> isc_type input \<noteq> []
       \<and> isc_title input \<noteq> ''Untitled Scholarship''
       \<and> jsonRoundTrip jsonStringify jsonParse (strs (isc_tags input))
       \<and> jsonRoundTrip jsonStringify jsonParse (strs (or_nil (isc_eligibleFields input)))
       \<and> jsonRoundTrip jsonStringify jsonParse (strs (or_nil (isc_eligibleLevels input)))"
  let ?r = "\<lparr> rec_id = rid, rec_fields = scholarshipFields jsonStringify now input \<rparr>"
  have m: "\<And>t. mapToScholarship jsonParse t ?r =
     \<lparr> sch_id = rid,
       sch_title = JStr (isc_title input),
       sch_organization = JStr (isc_organization input),
       sch_amount = JStr (isc_amount input),
       sch_deadline = JStr (isc_deadline input),
       sch_description = JStr (isc_description input),
       sch_requirements = JStr (isc_requirements input),
       sch_tags = strs (isc_tags input),
       sch_type = JStr (isc_type input),
       sch_eligibilityGpa =
         (if or_empty (isc_eligibilityGpa input) \<noteq> [] then JStr (or_empty (isc_eligibilityGpa input))
          else JUndefined),
       sch_eligibleFields = strs (or_nil (isc_eligibleFields input)),
       sch_eligibleLevels = strs (or_nil (isc_eligibleLevels input)),
       sch_isActive = True,
       sch_createdAt = (if now \<noteq> [] then JStr now else JStr t),
       sch_notes = JUndefined,
       sch_profileId = JUndefined \<rparr>"
    using a by (intro mapToScholarship_echo) simp_all
  have c: "createScholarship st jsonStringify jsonParse uuid now create input
             = Inr (mapToScholarship jsonParse now ?r)"
    using a by (simp add: createScholarship_def)
  have g: "getScholarshipById st jsonParse later findRecord rid
             = Some (mapToScholarship jsonParse later ?r)"
    using a by (simp add: getScholarshipById_def m)
  show "\<exists>created fetched.
          createScholarship st jsonStringify jsonParse uuid now create input = Inr created
        \<and> sch_id created = rid
        \<and> getScholarshipById st jsonParse later findRecord (sch_id created) = Some fetched
        \<and> sch_id fetched = sch_id created
        \<and> sch_title fetched = JStr (isc_title input)
        \<and> sch_organization fetched = JStr (isc_organization input)
        \<and> sch_amount fetched = JStr (isc_amount input)
        \<and> sch_deadline fetched = JStr (isc_deadline input)
        \<and> sch_description fetched = JStr (isc_description input)
        \<and> sch_requirements fetched = JStr (isc_requirements input)
        \<and> sch_tags fetched = strs (isc_tags input)
        \<and> sch_type fetched = JStr (isc_type input)
        \<and> sch_eligibilityGpa fetched =
             (if or_empty (isc_eligibilityGpa input) \<noteq> [] then JStr (or_empty (isc_eligibilityGpa input))
              else JUndefined)
        \<and> sch_eligibleFields fetched = strs (or_nil (isc_eligibleFields input))
        \<and> sch_eligibleLevels fetched = strs (or_nil (isc_eligibleLevels input))"
    apply (rule exI [of _ "mapToScholarship jsonParse now ?r"])
    apply (rule exI [of _ "mapToScholarship jsonParse later ?r"])
    apply (simp add: c)
    apply (simp add: m g)
    done
qed

theorem createScholarship_roundtrip_witness:
  "(\<exists>fetched.
      getScholarshipById (initialStorage True) sampleJsonParse sampleLater (echoFind sampleStoredRow)
        ''recNASA0001'' = Some fetched
    \<and> sch_title fetched = JStr ''NASA Summer Internship''
    \<and> sch_tags fetched = JArr [JStr ''internship'', JStr ''aerospace'', JStr ''stem'']
    \<and> sch_eligibilityGpa fetched = JStr ''3.0''
    \<and> sch_eligibleFields fetched = JArr [JStr ''Engineering'', JStr ''Physics'']
    \<and> sch_eligibleLevels fetched = JArr [])
   \<and> (\<exists>created.
      createScholarship (initialStorage False) sampleJsonStringify sampleJsonParse sampleUuid sampleNow
        backendDown sampleScholarship = Inr created
    \<and> sch_title created = JStr ''NASA Summer Internship''
    \<and> sch_eligibleLevels created = JUndefined
    \<and> getScholarshipById (initialStorage False) sampleJsonParse sampleLater backendDown
         (sch_id created) = None)"
proof -
  have tags: \<open>sampleJsonStringify (strs (isc_tags sampleScholarship))
                = ''["internship","aerospace","stem"]''\<close>
    by (simp add: sampleScholarship_def strs_def)
  have flds: \<open>sampleJsonStringify (strs (or_nil (isc_eligibleFields sampleScholarship)))
                = ''["Engineering","Physics"]''\<close>
    by (simp add: sampleScholarship_def strs_def or_nil_def)
  have lvls: "sampleJsonStringify (strs (or_nil (isc_eligibleLevels sampleScholarship))) = ''[]''"
    by (simp add: sampleScholarship_def strs_def or_nil_def)
  have rt: "jsonRoundTrip sampleJsonStringify sampleJsonParse (strs (isc_tags sampleScholarship))
       \<and> jsonRoundTrip sampleJsonStringify sampleJsonParse (strs (or_nil (isc_eligibleFields sampleScholarship)))
       \<and> jsonRoundTrip sampleJsonStringify sampleJsonParse (strs (or_nil (isc_eligibleLevels sampleScholarship)))"
    unfolding jsonRoundTrip_def tags flds lvls
    by (simp add: sampleJsonParse_def sampleScholarship_def strs_def or_nil_def)
  have h: "useAirtable (initialStorage True)
       \<and> echoCreate ''recNASA0001'' (scholarshipFields sampleJsonStringify sampleNow sampleScholarship)
           = Returned [\<lparr> rec_id = ''recNASA0001'',
                         rec_fields = scholarshipFields sampleJsonStringify sampleNow sampleScholarship \<rparr>]
       \<and> echoFind sampleStoredRow ''recNASA0001''
           = Returned (Some \<lparr> rec_id = ''recNASA0001'',
                         rec_fields = scholarshipFields sampleJsonStringify sampleNow sampleScholarship \<rparr>)
       \<and> \<not> startsWith ''recNASA0001'' ''fallback-''
       \<and> isc_title sampleScholarship \<noteq> [] \<and> isc_organization sampleScholarship \<noteq> []
       \<and> isc_amount sampleScholarship \<noteq> []
       \<and> isc_deadline sampleScholarship \<noteq> [] \<and> isc_description sampleScholarship \<noteq> []
       \<and> isc_requirements sampleScholarship \<noteq> []
       \<and> isc_type sampleScholarship \<noteq> []
       \<and> isc_title sampleScholarship \<noteq> ''Untitled Scholarship''
       \<and> jsonRoundTrip sampleJsonStringify sampleJsonParse (strs (isc_tags sampleScholarship))
       \<and> jsonRoundTrip sampleJsonStringify sampleJsonParse (strs (or_nil (isc_eligibleFields sampleScholarship)))
       \<and> jsonRoundTrip sampleJsonStringify sampleJsonParse (strs (or_nil (isc_eligibleLevels sampleScholarship)))"
    using rt
    by (simp add: initialStorage_def echoCreate_def echoFind_def sampleStoredRow_def startsWith_def
          sampleScholarship_def rupee_def)
  from createScholarship_roundtrip
         [of "initialStorage True" sampleUuid sampleJsonStringify sampleJsonParse sampleNow
             "echoCreate ''recNASA0001''" sampleScholarship sampleLater "echoFind sampleStoredRow"
             "''recNASA0001''", THEN conjunct2, rule_format, OF h]
  obtain created :: Scholarship and fetched :: Scholarship where b:
    "sch_id created = ''recNASA0001''
     \<and> getScholarshipById (initialStorage True) sampleJsonParse sampleLater (echoFind sampleStoredRow)
          (sch_id created) = Some fetched
     \<and> sch_title fetched = JStr (isc_title sampleScholarship)
     \<and> sch_tags fetched = strs (isc_tags sampleScholarship)
     \<and> sch_eligibilityGpa fetched =
          (if or_empty (isc_eligibilityGpa sampleScholarship) \<noteq> []
           then JStr (or_empty (isc_eligibilityGpa sampleScholarship)) else JUndefined)
     \<and> sch_eligibleFields fetched = strs (or_nil (isc_eligibleFields sampleScholarship))
     \<and> sch_eligibleLevels fetched = strs (or_nil (isc_eligibleLevels sampleScholarship))"
    by (elim exE conjE) (rule that, intro conjI, assumption+)
  have u: "\<not> useAirtable (initialStorage False) \<and> \<not> startsWith sampleUuid ''fallback-''"
    by (simp add: initialStorage_def startsWith_def sampleUuid_def)
  from createScholarship_roundtrip
         [of "initialStorage False" sampleUuid sampleJsonStringify sampleJsonParse sampleNow
             backendDown sampleScholarship sampleLater backendDown,
          THEN conjunct1, rule_format, OF u]
  obtain local :: Scholarship where l:
    "createScholarship (initialStorage False) sampleJsonStringify sampleJsonParse sampleUuid sampleNow
        backendDown sampleScholarship = Inr local
     \<and> sch_title local = JStr (isc_title sampleScholarship)
     \<and> sch_eligibleLevels local = opt_strs (isc_eligibleLevels sampleScholarship)
     \<and> getScholarshipById (initialStorage False) sampleJsonParse sampleLater backendDown
          (sch_id local) = None"
    by (elim exE conjE) (rule that, intro conjI, assumption+)
  have first: "\<exists>fetched.
      getScholarshipById (initialStorage True) sampleJsonParse sampleLater (echoFind sampleStoredRow)
        ''recNASA0001'' = Some fetched
    \<and> sch_title fetched = JStr ''NASA Summer Internship''
    \<and> sch_tags fetched = JArr [JStr ''internship'', JStr ''aerospace'', JStr ''stem'']
    \<and> sch_eligibilityGpa fetched = JStr ''3.0''
    \<and> sch_eligibleFields fetched = JArr [JStr ''Engineering'', JStr ''Physics'']
    \<and> sch_eligibleLevels fetched = JArr []"
    using b by (intro exI [of _ fetched], elim conjE) (simp add: sampleScholarship_def strs_def or_empty_def or_nil_def)
  have second: "\<exists>created.
      createScholarship (initialStorage False) sampleJsonStringify sampleJsonParse sampleUuid sampleNow
        backendDown sampleScholarship = Inr created
    \<and> sch_title created = JStr ''NASA Summer Internship''
    \<and> sch_eligibleLevels created = JUndefined
    \<and> getScholarshipById (initialStorage False) sampleJsonParse sampleLater backendDown
         (sch_id created) = None"
    using l by (intro exI [of _ local], elim conjE) (simp add: sampleScholarship_def opt_strs_def)
  from first second show ?thesis by (rule conjI)
qed

subsection \<open>Creates and the backend's condition\<close>

text \<open>
  A scholarship create with a backend that throws does fail outward: the exception is
  logged and thrown again.
\<close>

theorem createScholarship_backend_error_counterexample:
  "createScholarship (initialStorage True) sampleJsonStringify sampleJsonParse sampleUuid sampleNow
     backendDown sampleScholarship = Inl (BackendError ''ECONNREFUSED'')"
  by (simp add: createScholarship_def initialStorage_def backendDown_def)

text \<open>
  Claim C3, as amended. A profile create never fails outward, whatever the backend does:
  it returns the entity built from the input, stamped with the current time and cached
  under its ID, and the ID is the freshly generated one when no backend is configured or
  the backend call throws. A scholarship create returns a locally synthesized entity with
  the freshly generated ID and the current time when no backend is configured, and the
  entity mapped from the backend's record when the backend call succeeds; when the
  backend call throws, the exception leaves the create.
\<close>

theorem create_never_fails_outward:
  "(\<exists>p st'.
       createStudentProfile st uuid now create profile = Inr (p, st')
     \<and> newProfile (sp_id p) now profile = p
     \<and> sp_createdAt p = JStr now \<and> sp_updatedAt p = JStr now
     \<and> profileStorage st' (sp_id p) = Some p
     \<and> (\<not> useAirtable st \<or> (\<exists>e. create (profileFields now profile) = Threw e) \<longrightarrow> sp_id p = uuid))
   \<and> (\<not> useAirtable st \<longrightarrow>
        (\<exists>s. createScholarship st jsonStringify jsonParse uuid now create scholarship = Inr s
            \<and> sch_id s = uuid \<and> sch_createdAt s = JStr now
            \<and> sch_title s = JStr (isc_title scholarship)
            \<and> sch_organization s = JStr (isc_organization scholarship)))
   \<and> (useAirtable st \<and> create (scholarshipFields jsonStringify now scholarship) = Returned (r # rs) \<longrightarrow>
        createScholarship st jsonStringify jsonParse uuid now create scholarship
          = Inr (mapToScholarship jsonParse now r))
   \<and> (useAirtable st \<and> create (scholarshipFields jsonStringify now scholarship) = Threw e \<longrightarrow>
        createScholarship st jsonStringify jsonParse uuid now create scholarship = Inl e)"
proof (intro conjI impI)
  show "\<exists>p st'.
       createStudentProfile st uuid now create profile = Inr (p, st')
     \<and> newProfile (sp_id p) now profile = p
     \<and> sp_createdAt p = JStr now \<and> sp_updatedAt p = JStr now
     \<and> profileStorage st' (sp_id p) = Some p
     \<and> (\<not> useAirtable st \<or> (\<exists>e. create (profileFields now profile) = Threw e) \<longrightarrow> sp_id p = uuid)"
    by (auto simp: createStudentProfile_def storeProfile_def newProfile_def
             split: backend.splits list.splits)
next
  assume "\<not> useAirtable st"
  then show "\<exists>s. createScholarship st jsonStringify jsonParse uuid now create scholarship = Inr s
            \<and> sch_id s = uuid \<and> sch_createdAt s = JStr now
            \<and> sch_title s = JStr (isc_title scholarship)
            \<and> sch_organization s = JStr (isc_organization scholarship)"
    by (simp add: createScholarship_def)
next
  assume "useAirtable st \<and> create (scholarshipFields jsonStringify now scholarship) = Returned (r # rs)"
  then show "createScholarship st jsonStringify jsonParse uuid now create scholarship
               = Inr (mapToScholarship jsonParse now r)"
    by (simp add: createScholarship_def)
next
  assume "useAirtable st \<and> create (scholarshipFields jsonStringify now scholarship) = Threw e"
  then show "createScholarship st jsonStringify jsonParse uuid now create scholarship = Inl e"
    by (simp add: createScholarship_def)
qed

theorem create_never_fails_outward_witness:
  "(\<exists>p st'. createStudentProfile (initialStorage True) sampleUuid sampleNow backendDown
               sampleProfileInput = Inr (p, st')
           \<and> sp_id p = sampleUuid \<and> sp_name p = JStr ''Asha Rao''
           \<and> profileStorage st' sampleUuid = Some p)
   \<and> (\<exists>s. createScholarship (initialStorage False) sampleJsonStringify sampleJsonParse sampleUuid
             sampleNow backendDown sampleScholarship = Inr s \<and> sch_id s = sampleUuid)
   \<and> createScholarship (initialStorage True) sampleJsonStringify sampleJsonParse sampleUuid
        sampleNow (echoCreate ''recNASA0001'') sampleScholarship
      = Inr (mapToScholarship sampleJsonParse sampleNow sampleStoredRow)
   \<and> createScholarship (initialStorage True) sampleJsonStringify sampleJsonParse sampleUuid
        sampleNow backendDown sampleScholarship = Inl (BackendError ''ECONNREFUSED'')"
proof -
  have down: "\<exists>e. backendDown (profileFields sampleNow sampleProfileInput)
                 = (Threw e :: AirtableRecord list backend)"
    by (simp add: backendDown_def)
  have off: "\<not> useAirtable (initialStorage False)"
    by (simp add: initialStorage_def)
  from create_never_fails_outward
         [of "initialStorage True" sampleUuid sampleNow backendDown sampleProfileInput]
  obtain p :: StudentProfile and st' :: Storage where p:
    "createStudentProfile (initialStorage True) sampleUuid sampleNow backendDown sampleProfileInput
       = Inr (p, st')"
    "newProfile (sp_id p) sampleNow sampleProfileInput = p"
    "profileStorage st' (sp_id p) = Some p"
    "\<not> useAirtable (initialStorage True)
       \<or> (\<exists>e. backendDown (profileFields sampleNow sampleProfileInput)
                = (Threw e :: AirtableRecord list backend)) \<longrightarrow> sp_id p = sampleUuid"
    by blast
  from p(4) down have i: "sp_id p = sampleUuid" by blast
  have "sp_name (newProfile (sp_id p) sampleNow sampleProfileInput) = JStr ''Asha Rao''"
    by (simp add: newProfile_def sampleProfileInput_def)
  with p(2) have n: "sp_name p = JStr ''Asha Rao''"
    by simp
  from p(1,3) i n have first:
    "\<exists>p st'. createStudentProfile (initialStorage True) sampleUuid sampleNow backendDown
               sampleProfileInput = Inr (p, st')
           \<and> sp_id p = sampleUuid \<and> sp_name p = JStr ''Asha Rao''
           \<and> profileStorage st' sampleUuid = Some p"
    by auto
  from create_never_fails_outward
         [of "initialStorage False" sampleUuid sampleNow backendDown sampleProfileInput
             sampleJsonStringify sampleJsonParse sampleScholarship]
       off
  obtain s :: Scholarship where
    "createScholarship (initialStorage False) sampleJsonStringify sampleJsonParse sampleUuid
       sampleNow backendDown sampleScholarship = Inr s" "sch_id s = sampleUuid"
    by blast
  then have second:
    "\<exists>s. createScholarship (initialStorage False) sampleJsonStringify sampleJsonParse sampleUuid
             sampleNow backendDown sampleScholarship = Inr s \<and> sch_id s = sampleUuid"
    by blast
  have ok: "useAirtable (initialStorage True)
            \<and> echoCreate ''recNASA0001'' (scholarshipFields sampleJsonStringify sampleNow sampleScholarship)
                = Returned (sampleStoredRow # [])"
    by (simp add: initialStorage_def echoCreate_def sampleStoredRow_def)
  have third:
    "createScholarship (initialStorage True) sampleJsonStringify sampleJsonParse sampleUuid
        sampleNow (echoCreate ''recNASA0001'') sampleScholarship
      = Inr (mapToScholarship sampleJsonParse sampleNow sampleStoredRow)"
    using create_never_fails_outward
         [of "initialStorage True" sampleUuid sampleNow "echoCreate ''recNASA0001''" sampleProfileInput
             sampleJsonStringify sampleJsonParse sampleScholarship sampleStoredRow "[]"]
          ok
    by blast
  have err: "useAirtable (initialStorage True)
             \<and> backendDown (scholarshipFields sampleJsonStringify sampleNow sampleScholarship)
                 = (Threw (BackendError ''ECONNREFUSED'') :: AirtableRecord list backend)"
    by (simp add: initialStorage_def backendDown_def)
  have fourth:
    "createScholarship (initialStorage True) sampleJsonStringify sampleJsonParse sampleUuid
        sampleNow backendDown sampleScholarship = Inl (BackendError ''ECONNREFUSED'')"
    using create_never_fails_outward
         [of "initialStorage True" sampleUuid sampleNow backendDown sampleProfileInput
             sampleJsonStringify sampleJsonParse sampleScholarship _ _ "BackendError ''ECONNREFUSED''"]
          err
    by blast
  from first second third fourth show ?thesis by (intro conjI)
qed

subsection \<open>Partial updates of a profile\<close>

text \<open>
  A profile that only the backend holds is not read by the update. The sample row
  carries a name, and a lookup on the cold cache returns it; an update of the same ID
  that omits the name returns the empty name, caches it, and the lookup serves the empty
  name from then on.
\<close>

theorem updateStudentProfile_cold_cache_counterexample:
  "map_option sp_name
     (fst (getStudentProfileById (initialStorage True) sampleLater (echoFind sampleProfileRow)
             ''recPROFILE01'')) = Some (JStr ''Asha Rao'')
   \<and> psp_name samplePayload = None
   \<and> map_sum id (sp_name \<circ> fst)
       (updateStudentProfile (initialStorage True) sampleLater echoCreate ''recPROFILE01'' samplePayload)
       = Inr (JStr [])
   \<and> map_option sp_name
       (fst (getStudentProfileById
               (snd (projr (updateStudentProfile (initialStorage True) sampleLater echoCreate
                              ''recPROFILE01'' samplePayload)))
               sampleLater (echoFind sampleProfileRow) ''recPROFILE01'')) = Some (JStr [])"
proof -
  have before: "map_option sp_name
     (fst (getStudentProfileById (initialStorage True) sampleLater (echoFind sampleProfileRow)
             ''recPROFILE01'')) = Some (JStr ''Asha Rao'')"
    by (simp add: getStudentProfileById_def initialStorage_def echoFind_def sampleProfileRow_def
          mapToStudentProfile_def field_def profileFields_def sampleProfileInput_def js_or_def
          Let_def)
  have omitted: "psp_name samplePayload = None"
    by (simp add: samplePayload_def)
  have upd: "updateStudentProfile (initialStorage True) sampleLater echoCreate ''recPROFILE01'' samplePayload
      = Inr (mergeProfile (emptyProfile ''recPROFILE01'' sampleLater) samplePayload sampleLater,
             (initialStorage True)\<lparr>profileStorage :=
                [''recPROFILE01'' \<mapsto>
                   mergeProfile (emptyProfile ''recPROFILE01'' sampleLater) samplePayload sampleLater]\<rparr>)"
    by (simp add: updateStudentProfile_def existingProfile_def initialStorage_def echoCreate_def Let_def)
  have name: "sp_name (mergeProfile (emptyProfile ''recPROFILE01'' sampleLater) samplePayload sampleLater)
                = JStr []"
    by (simp add: mergeProfile_def emptyProfile_def samplePayload_def overwrite_def)
  have after: "map_option sp_name
       (fst (getStudentProfileById
               (snd (projr (updateStudentProfile (initialStorage True) sampleLater echoCreate
                              ''recPROFILE01'' samplePayload)))
               sampleLater (echoFind sampleProfileRow) ''recPROFILE01'')) = Some (JStr [])"
    by (simp add: upd getStudentProfileById_def name)
  from before omitted upd name after show ?thesis
    by simp
qed

text \<open>
  Claim C7, as amended. For every update of a profile that the transient cache holds,
  the returned entity is the one cached under the ID afterwards; every field the payload
  omits keeps its cached pre-update value, every field the payload supplies takes the
  supplied value, and besides the supplied fields only \<open>updatedAt\<close> changes: the ID and
  \<open>createdAt\<close> stay. With nothing cached under the ID the backend is not read: the
  payload is merged in the same way onto an empty entity, with empty name, email and
  location, every other field absent, and \<open>createdAt\<close> set to the time of the update. The
  backend's answer to the update does not matter.
\<close>

theorem updateStudentProfile_merge:
  "\<exists>updated st'.
      updateStudentProfile st now update i profile = Inr (updated, st')
    \<and> profileStorage st' i = Some updated
    \<and> (\<forall>j. j \<noteq> i \<longrightarrow> profileStorage st' j = profileStorage st j)
    \<and> (\<forall>p. profileStorage st i = Some p \<longrightarrow> existingProfile st now i = p)
    \<and> (profileStorage st i = None \<longrightarrow>
          existingProfile st now i =
            \<lparr> sp_id = i, sp_name = JStr [], sp_email = JStr [], sp_phone = JUndefined,
              sp_location = JStr [], sp_educationLevel = JUndefined, sp_fieldOfStudy = JUndefined,
              sp_gpa = JUndefined, sp_graduationYear = JUndefined, sp_skills = JUndefined,
              sp_activities = JUndefined, sp_financialNeed = JUndefined, sp_summary = JUndefined,
              sp_education = JUndefined, sp_experience = JUndefined, sp_projects = JUndefined,
              sp_createdAt = JStr now, sp_updatedAt = JStr now \<rparr>)
    \<and> sp_id updated = sp_id (existingProfile st now i)
    \<and> sp_createdAt updated = sp_createdAt (existingProfile st now i)
    \<and> sp_updatedAt updated = JStr now
    \<and> (psp_name profile = None \<longrightarrow> sp_name updated = sp_name (existingProfile st now i))
    \<and> (\<forall>v. psp_name profile = Some v \<longrightarrow> sp_name updated = JStr v)
    \<and> (psp_email profile = None \<longrightarrow> sp_email updated = sp_email (existingProfile st now i))
    \<and> (\<forall>v. psp_email profile = Some v \<longrightarrow> sp_email updated = JStr v)
    \<and> (psp_phone profile = None \<longrightarrow> sp_phone updated = sp_phone (existingProfile st now i))
    \<and> (\<forall>v. psp_phone profile = Some v \<longrightarrow> sp_phone updated = JStr v)
    \<and> (psp_location profile = None \<longrightarrow> sp_location updated = sp_location (existingProfile st now i))
    \<and> (\<forall>v. psp_location profile = Some v \<longrightarrow> sp_location updated = JStr v)
    \<and> (psp_educationLevel profile = None \<longrightarrow>
           sp_educationLevel updated = sp_educationLevel (existingProfile st now i))
    \<and> (\<forall>v. psp_educationLevel profile = Some v \<longrightarrow> sp_educationLevel updated = JStr v)
    \<and> (psp_fieldOfStudy profile = None \<longrightarrow>
           sp_fieldOfStudy updated = sp_fieldOfStudy (existingProfile st now i))
    \<and> (\<forall>v. psp_fieldOfStudy profile = Some v \<longrightarrow> sp_fieldOfStudy updated = JStr v)
    \<and> (psp_gpa profile = None \<longrightarrow> sp_gpa updated = sp_gpa (existingProfile st now i))
    \<and> (\<forall>v. psp_gpa profile = Some v \<longrightarrow> sp_gpa updated = JStr v)
    \<and> (psp_graduationYear profile = None \<longrightarrow>
           sp_graduationYear updated = sp_graduationYear (existingProfile st now i))
    \<and> (\<forall>v. psp_graduationYear profile = Some v \<longrightarrow> sp_graduationYear updated = JStr v)
    \<and> (psp_skills profile = None \<longrightarrow> sp_skills updated = sp_skills (existingProfile st now i))
    \<and> (\<forall>v. psp_skills profile = Some v \<longrightarrow> sp_skills updated = strs v)
    \<and> (psp_activities profile = None \<longrightarrow>
           sp_activities updated = sp_activities (existingProfile st now i))
    \<and> (\<forall>v. psp_activities profile = Some v \<longrightarrow> sp_activities updated = JStr v)
    \<and> (psp_financialNeed profile = None \<longrightarrow>
           sp_financialNeed updated = sp_financialNeed (existingProfile st now i))
    \<and> (\<forall>v. psp_financialNeed profile = Some v \<longrightarrow> sp_financialNeed updated = JStr v)
    \<and> (psp_summary profile = None \<longrightarrow> sp_summary updated = sp_summary (existingProfile st now i))
    \<and> (\<forall>v. psp_summary profile = Some v \<longrightarrow> sp_summary updated = JStr v)
    \<and> (psp_education profile = None \<longrightarrow>
           sp_education updated = sp_education (existingProfile st now i))
    \<and> (\<forall>v. psp_education profile = Some v \<longrightarrow> sp_education updated = JStr v)
    \<and> (psp_experience profile = None \<longrightarrow>
           sp_experience updated = sp_experience (existingProfile st now i))
    \<and> (\<forall>v. psp_experience profile = Some v \<longrightarrow> sp_experience updated = JStr v)
    \<and> (psp_projects profile = None \<longrightarrow> sp_projects updated = sp_projects (existingProfile st now i))
    \<and> (\<forall>v. psp_projects profile = Some v \<longrightarrow> sp_projects updated = JStr v)"
proof -
  let ?u = "mergeProfile (existingProfile st now i) profile now"
  let ?st = "st\<lparr>profileStorage := (profileStorage st)(i \<mapsto> ?u)\<rparr>"
  have r: "updateStudentProfile st now update i profile = Inr (?u, ?st)"
    by (simp add: updateStudentProfile_def Let_def split: backend.splits)
  have cached: "\<forall>p. profileStorage st i = Some p \<longrightarrow> existingProfile st now i = p"
    by (simp add: existingProfile_def)
  have uncached: "profileStorage st i = None \<longrightarrow>
          existingProfile st now i =
            \<lparr> sp_id = i, sp_name = JStr [], sp_email = JStr [], sp_phone = JUndefined,
              sp_location = JStr [], sp_educationLevel = JUndefined, sp_fieldOfStudy = JUndefined,
              sp_gpa = JUndefined, sp_graduationYear = JUndefined, sp_skills = JUndefined,
              sp_activities = JUndefined, sp_financialNeed = JUndefined, sp_summary = JUndefined,
              sp_education = JUndefined, sp_experience = JUndefined, sp_projects = JUndefined,
              sp_createdAt = JStr now, sp_updatedAt = JStr now \<rparr>"
    by (simp add: existingProfile_def emptyProfile_def)
  show ?thesis
    apply (rule exI [of _ ?u])
    apply (rule exI [of _ ?st])
    apply (intro conjI)
    apply (rule r)
    apply simp
    apply simp
    apply (rule cached)
    apply (rule uncached)
    apply (simp_all add: mergeProfile_def overwrite_def overwrite_list_def)
    done
qed

theorem updateStudentProfile_merge_witness:
  "(\<exists>updated st'.
      updateStudentProfile (sampleCachedStorage False) sampleLater (\<lambda>i. backendDown) ''p1'' samplePayload
        = Inr (updated, st')
    \<and> sp_name updated = JStr ''Asha Rao''
    \<and> sp_gpa updated = JStr ''3.9''
    \<and> sp_createdAt updated = JStr sampleNow
    \<and> sp_updatedAt updated = JStr sampleLater)
   \<and> (\<exists>updated st'.
      updateStudentProfile (initialStorage True) sampleLater echoCreate ''recPROFILE01'' samplePayload
        = Inr (updated, st')
    \<and> sp_name updated = JStr []
    \<and> sp_gpa updated = JStr ''3.9''
    \<and> sp_createdAt updated = JStr sampleLater)"
proof -
  have ex: "existingProfile (sampleCachedStorage False) sampleLater ''p1''
              = newProfile ''p1'' sampleNow sampleProfileInput"
    by (simp add: existingProfile_def sampleCachedStorage_def initialStorage_def)
  have omitted: "psp_name samplePayload = None"
    by (simp add: samplePayload_def)
  have supplied: "psp_gpa samplePayload = Some ''3.9''"
    by (simp add: samplePayload_def)
  from updateStudentProfile_merge
         [of "sampleCachedStorage False" sampleLater "\<lambda>i. backendDown" "''p1''" samplePayload]
  obtain updated :: StudentProfile and st' :: Storage where all:
    "updateStudentProfile (sampleCachedStorage False) sampleLater (\<lambda>i. backendDown) ''p1'' samplePayload
       = Inr (updated, st')
     \<and> sp_createdAt updated = sp_createdAt (existingProfile (sampleCachedStorage False) sampleLater ''p1'')
     \<and> sp_updatedAt updated = JStr sampleLater
     \<and> (psp_name samplePayload = None \<longrightarrow>
          sp_name updated = sp_name (existingProfile (sampleCachedStorage False) sampleLater ''p1''))
     \<and> (\<forall>v. psp_gpa samplePayload = Some v \<longrightarrow> sp_gpa updated = JStr v)"
    by (elim exE conjE) (rule that, intro conjI, assumption+)
  then have u:
    "updateStudentProfile (sampleCachedStorage False) sampleLater (\<lambda>i. backendDown) ''p1'' samplePayload
       = Inr (updated, st')"
    "sp_createdAt updated = sp_createdAt (existingProfile (sampleCachedStorage False) sampleLater ''p1'')"
    "sp_updatedAt updated = JStr sampleLater"
    "psp_name samplePayload = None \<longrightarrow>
       sp_name updated = sp_name (existingProfile (sampleCachedStorage False) sampleLater ''p1'')"
    "\<forall>v. psp_gpa samplePayload = Some v \<longrightarrow> sp_gpa updated = JStr v"
    by simp_all
  from u(4) omitted have "sp_name updated = sp_name (newProfile ''p1'' sampleNow sampleProfileInput)"
    by (simp add: ex)
  then have n: "sp_name updated = JStr ''Asha Rao''"
    by (simp add: newProfile_def sampleProfileInput_def)
  from u(5) supplied have g: "sp_gpa updated = JStr ''3.9''"
    by blast
  from u(2) have c: "sp_createdAt updated = JStr sampleNow"
    by (simp add: ex newProfile_def)
  from u(1) n g c u(3) have first: "\<exists>updated st'.
      updateStudentProfile (sampleCachedStorage False) sampleLater (\<lambda>i. backendDown) ''p1'' samplePayload
        = Inr (updated, st')
    \<and> sp_name updated = JStr ''Asha Rao''
    \<and> sp_gpa updated = JStr ''3.9''
    \<and> sp_createdAt updated = JStr sampleNow
    \<and> sp_updatedAt updated = JStr sampleLater"
    by blast
  have cold: "profileStorage (initialStorage True) ''recPROFILE01'' = None"
    by (simp add: initialStorage_def)
  from updateStudentProfile_merge
         [of "initialStorage True" sampleLater echoCreate "''recPROFILE01''" samplePayload]
  obtain blank :: StudentProfile and st2 :: Storage where all2:
    "updateStudentProfile (initialStorage True) sampleLater echoCreate ''recPROFILE01'' samplePayload
       = Inr (blank, st2)
     \<and> (profileStorage (initialStorage True) ''recPROFILE01'' = None \<longrightarrow>
          existingProfile (initialStorage True) sampleLater ''recPROFILE01'' =
            \<lparr> sp_id = ''recPROFILE01'', sp_name = JStr [], sp_email = JStr [], sp_phone = JUndefined,
              sp_location = JStr [], sp_educationLevel = JUndefined, sp_fieldOfStudy = JUndefined,
              sp_gpa = JUndefined, sp_graduationYear = JUndefined, sp_skills = JUndefined,
              sp_activities = JUndefined, sp_financialNeed = JUndefined, sp_summary = JUndefined,
              sp_education = JUndefined, sp_experience = JUndefined, sp_projects = JUndefined,
              sp_createdAt = JStr sampleLater, sp_updatedAt = JStr sampleLater \<rparr>)
     \<and> sp_createdAt blank = sp_createdAt (existingProfile (initialStorage True) sampleLater ''recPROFILE01'')
     \<and> (psp_name samplePayload = None \<longrightarrow>
          sp_name blank = sp_name (existingProfile (initialStorage True) sampleLater ''recPROFILE01''))
     \<and> (\<forall>v. psp_gpa samplePayload = Some v \<longrightarrow> sp_gpa blank = JStr v)"
    by (elim exE conjE) (rule that, intro conjI, assumption+)
  then have b:
    "updateStudentProfile (initialStorage True) sampleLater echoCreate ''recPROFILE01'' samplePayload
       = Inr (blank, st2)"
    "profileStorage (initialStorage True) ''recPROFILE01'' = None \<longrightarrow>
          existingProfile (initialStorage True) sampleLater ''recPROFILE01'' =
            \<lparr> sp_id = ''recPROFILE01'', sp_name = JStr [], sp_email = JStr [], sp_phone = JUndefined,
              sp_location = JStr [], sp_educationLevel = JUndefined, sp_fieldOfStudy = JUndefined,
              sp_gpa = JUndefined, sp_graduationYear = JUndefined, sp_skills = JUndefined,
              sp_activities = JUndefined, sp_financialNeed = JUndefined, sp_summary = JUndefined,
              sp_education = JUndefined, sp_experience = JUndefined, sp_projects = JUndefined,
              sp_createdAt = JStr sampleLater, sp_updatedAt = JStr sampleLater \<rparr>"
    "sp_createdAt blank = sp_createdAt (existingProfile (initialStorage True) sampleLater ''recPROFILE01'')"
    "psp_name samplePayload = None \<longrightarrow>
          sp_name blank = sp_name (existingProfile (initialStorage True) sampleLater ''recPROFILE01'')"
    "\<forall>v. psp_gpa samplePayload = Some v \<longrightarrow> sp_gpa blank = JStr v"
    by simp_all
  from b(2) cold have base:
    "existingProfile (initialStorage True) sampleLater ''recPROFILE01'' =
            \<lparr> sp_id = ''recPROFILE01'', sp_name = JStr [], sp_email = JStr [], sp_phone = JUndefined,
              sp_location = JStr [], sp_educationLevel = JUndefined, sp_fieldOfStudy = JUndefined,
              sp_gpa = JUndefined, sp_graduationYear = JUndefined, sp_skills = JUndefined,
              sp_activities = JUndefined, sp_financialNeed = JUndefined, sp_summary = JUndefined,
              sp_education = JUndefined, sp_experience = JUndefined, sp_projects = JUndefined,
              sp_createdAt = JStr sampleLater, sp_updatedAt = JStr sampleLater \<rparr>"
    by blast
  from b(4) omitted have n2: "sp_name blank = JStr []"
    by (simp add: base)
  from b(5) supplied have g2: "sp_gpa blank = JStr ''3.9''"
    by blast
  from b(3) have c2: "sp_createdAt blank = JStr sampleLater"
    by (simp add: base)
  from b(1) n2 g2 c2 have second: "\<exists>updated st'.
      updateStudentProfile (initialStorage True) sampleLater echoCreate ''recPROFILE01'' samplePayload
        = Inr (updated, st')
    \<and> sp_name updated = JStr []
    \<and> sp_gpa updated = JStr ''3.9''
    \<and> sp_createdAt updated = JStr sampleLater"
    by blast
  from first second show ?thesis by (rule conjI)
qed

subsection \<open>Generating matches\<close>

text \<open>A draw in \<open>[0, 1)\<close> gives a score from 60 to 99.\<close>

lemma matchScore_range:
  assumes "0 \<le> r" "r < 1"
  shows "60 \<le> matchScore r \<and> matchScore r \<le> 99"
proof -
  have "0 \<le> r * 40" using assms by simp
  then have lo: "0 \<le> \<lfloor>r * 40\<rfloor>" by simp
  have "r * 40 < 40" using assms by simp
  then have "\<lfloor>r * 40\<rfloor> < 40" by (simp add: floor_less_iff)
  with lo show ?thesis by (simp add: matchScore_def)
qed

lemma getStudentProfileById_frame:
  assumes "getStudentProfileById st now findRecord profileId = (r, st1)"
  shows "matchStorage st1 = matchStorage st \<and> useAirtable st1 = useAirtable st"
  using assms
  by (auto simp: getStudentProfileById_def split: option.splits backend.splits sum.splits if_splits)

lemma createScholarshipMatch_store:
  "snd (createScholarshipMatch st uuid now create match) =
     st\<lparr>matchStorage := (matchStorage st)
          (im_profileId match \<mapsto> existingMatches st (im_profileId match) @ [newMatch uuid now match])\<rparr>"
  by (simp add: createScholarshipMatch_def Let_def split: backend.splits list.splits)

lemma createScholarshipMatch_local:
  "\<not> useAirtable st \<Longrightarrow> fst (createScholarshipMatch st uuid now create match) = newMatch uuid now match"
  by (simp add: createScholarshipMatch_def Let_def)

lemma createMatches_spec:
  assumes "\<forall>n. 0 \<le> ge_random env n \<and> ge_random env n < 1"
  shows "\<exists>created st' new.
      createMatches st env profileId n ss = (created, st')
    \<and> length created = length ss
    \<and> useAirtable st' = useAirtable st
    \<and> existingMatches st' profileId = existingMatches st profileId @ new
    \<and> map m_scholarshipId new = map sch_id ss
    \<and> (\<forall>m \<in> set new. m_profileId m = profileId \<and> 60 \<le> m_matchScore m \<and> m_matchScore m \<le> 100
           \<and> m_status m = ''new'' \<and> m_aiReasoning m = Some placeholderReasoning)
    \<and> (\<forall>q. q \<noteq> profileId \<longrightarrow> matchStorage st' q = matchStorage st q)
    \<and> (\<not> useAirtable st \<longrightarrow> created = new)"
proof (induction ss arbitrary: st n)
  case Nil
  show ?case by simp
next
  case (Cons s rest)
  let ?ins = "\<lparr> im_profileId = profileId, im_scholarshipId = sch_id s,
                 im_matchScore = matchScore (ge_random env n),
                 im_aiReasoning = Some placeholderReasoning, im_status = ''new'' \<rparr>"
  let ?new = "newMatch (ge_uuid env n) (ge_now_at env n) ?ins"
  obtain match st1 where c:
    "createScholarshipMatch st (ge_uuid env n) (ge_now_at env n) (ge_create env n) ?ins = (match, st1)"
    by (cases "createScholarshipMatch st (ge_uuid env n) (ge_now_at env n) (ge_create env n) ?ins")
  have st1: "st1 = st\<lparr>matchStorage := (matchStorage st)
                 (profileId \<mapsto> existingMatches st profileId @ [?new])\<rparr>"
    using createScholarshipMatch_store [of st "ge_uuid env n" "ge_now_at env n" "ge_create env n" ?ins] c
    by simp
  have local: "\<not> useAirtable st \<longrightarrow> match = ?new"
    using createScholarshipMatch_local [of st "ge_uuid env n" "ge_now_at env n" "ge_create env n" ?ins] c
    by simp
  from Cons.IH [of st1 "Suc n"] obtain created st' new where ih:
    "createMatches st1 env profileId (Suc n) rest = (created, st')"
    "length created = length rest"
    "useAirtable st' = useAirtable st1"
    "existingMatches st' profileId = existingMatches st1 profileId @ new"
    "map m_scholarshipId new = map sch_id rest"
    "\<forall>m \<in> set new. m_profileId m = profileId \<and> 60 \<le> m_matchScore m \<and> m_matchScore m \<le> 100
           \<and> m_status m = ''new'' \<and> m_aiReasoning m = Some placeholderReasoning"
    "\<forall>q. q \<noteq> profileId \<longrightarrow> matchStorage st' q = matchStorage st1 q"
    "\<not> useAirtable st1 \<longrightarrow> created = new"
    by blast
  have score: "60 \<le> matchScore (ge_random env n) \<and> matchScore (ge_random env n) \<le> 100"
    using matchScore_range [of "ge_random env n"] assms by force
  have r: "createMatches st env profileId n (s # rest) = (match # created, st')"
    using c ih(1) by simp
  have e1: "existingMatches st1 profileId = existingMatches st profileId @ [?new]"
    by (simp add: st1 existingMatches_def)
  have p: "\<forall>m \<in> set (?new # new). m_profileId m = profileId \<and> 60 \<le> m_matchScore m
              \<and> m_matchScore m \<le> 100 \<and> m_status m = ''new''
              \<and> m_aiReasoning m = Some placeholderReasoning"
    using ih(6) score by (simp add: newMatch_def)
  have q: "\<forall>q. q \<noteq> profileId \<longrightarrow> matchStorage st' q = matchStorage st q"
    using ih(7) by (simp add: st1)
  have u: "useAirtable st' = useAirtable st"
    using ih(3) by (simp add: st1)
  have l: "\<not> useAirtable st \<longrightarrow> match # created = ?new # new"
    using local ih(8) by (simp add: st1)
  have ids: "map m_scholarshipId (?new # new) = map sch_id (s # rest)"
    using ih(5) by (simp add: newMatch_def)
  have ex: "existingMatches st' profileId = existingMatches st profileId @ (?new # new)"
    using ih(4) e1 by simp
  have len: "length (match # created) = length (s # rest)"
    using ih(2) by simp
  show ?case
    apply (rule exI [of _ "match # created"])
    apply (rule exI [of _ st'])
    apply (rule exI [of _ "?new # new"])
    using r len u ex ids p q l apply (intro conjI)
           apply assumption+
    done
qed

text \<open>
  Claim C1. For a request that names a profile the lookup finds, over a catalog of \<open>N\<close>
  scholarships (what listing the scholarships returns), the handler answers with \<open>N\<close>
  matches and appends \<open>N\<close> match records to those cached for the profile, one per
  scholarship of the catalog and in its order, each with a score from 60 to 100, the
  status \<^verbatim>\<open>new\<close> and the placeholder reasoning. The matches of other profiles are
  untouched, and with no backend configured the answer is the list of the new records.
\<close>

theorem postMatchesGenerate_creates_matches:
  assumes nonempty: "profileId \<noteq> []"
    and found: "getStudentProfileById st (ge_now env) (ge_findProfile env) profileId = (Some profile, st1)"
    and draws: "\<forall>n. 0 \<le> ge_random env n \<and> ge_random env n < 1"
  shows "\<exists>created st2 new.
      postMatchesGenerate st env (Some profileId) = (Json created, st2)
    \<and> length created
         = length (getAllScholarships st1 (ge_jsonParse env) (ge_now env) (ge_selectAll env))
    \<and> existingMatches st2 profileId = existingMatches st profileId @ new
    \<and> length new
         = length (getAllScholarships st1 (ge_jsonParse env) (ge_now env) (ge_selectAll env))
    \<and> map m_scholarshipId new
         = map sch_id (getAllScholarships st1 (ge_jsonParse env) (ge_now env) (ge_selectAll env))
    \<and> (\<forall>m \<in> set new. m_profileId m = profileId \<and> 60 \<le> m_matchScore m \<and> m_matchScore m \<le> 100
           \<and> m_status m = ''new'' \<and> m_aiReasoning m = Some placeholderReasoning)
    \<and> (\<forall>q. q \<noteq> profileId \<longrightarrow> matchStorage st2 q = matchStorage st q)
    \<and> (\<not> useAirtable st \<longrightarrow> created = new)"
proof -
  let ?catalog = "getAllScholarships st1 (ge_jsonParse env) (ge_now env) (ge_selectAll env)"
  have frame: "matchStorage st1 = matchStorage st \<and> useAirtable st1 = useAirtable st"
    using found by (rule getStudentProfileById_frame)
  from createMatches_spec [OF draws, of st1 profileId 0 ?catalog]
  obtain created st2 new where c:
    "createMatches st1 env profileId 0 ?catalog = (created, st2)"
    "length created = length ?catalog"
    "existingMatches st2 profileId = existingMatches st1 profileId @ new"
    "map m_scholarshipId new = map sch_id ?catalog"
    "\<forall>m \<in> set new. m_profileId m = profileId \<and> 60 \<le> m_matchScore m \<and> m_matchScore m \<le> 100
           \<and> m_status m = ''new'' \<and> m_aiReasoning m = Some placeholderReasoning"
    "\<forall>q. q \<noteq> profileId \<longrightarrow> matchStorage st2 q = matchStorage st1 q"
    "\<not> useAirtable st1 \<longrightarrow> created = new"
    by blast
  have r: "postMatchesGenerate st env (Some profileId) = (Json created, st2)"
    using nonempty found c(1) by (simp add: postMatchesGenerate_def missing_def or_empty_def)
  have e: "existingMatches st2 profileId = existingMatches st profileId @ new"
    using c(3) frame by (simp add: existingMatches_def)
  have n: "length new = length ?catalog"
    using c(4) by (metis length_map)
  have q: "\<forall>q. q \<noteq> profileId \<longrightarrow> matchStorage st2 q = matchStorage st q"
    using c(6) frame by simp
  have l: "\<not> useAirtable st \<longrightarrow> created = new"
    using c(7) frame by simp
  show ?thesis
    apply (rule exI [of _ created])
    apply (rule exI [of _ st2])
    apply (rule exI [of _ new])
    using r c(2) e n c(4) c(5) q l apply (intro conjI)
           apply assumption+
    done
qed

theorem postMatchesGenerate_creates_matches_witness:
  "\<exists>created st2.
      postMatchesGenerate (sampleCachedStorage False) sampleEnv (Some ''p1'') = (Json created, st2)
    \<and> length created = 6
    \<and> existingMatches st2 ''p1'' = created
    \<and> map m_scholarshipId created =
         [''fallback-1'', ''fallback-2'', ''fallback-3'', ''fallback-4'', ''fallback-5'', ''fallback-6'']
    \<and> (\<forall>m \<in> set created. 60 \<le> m_matchScore m \<and> m_matchScore m \<le> 100 \<and> m_status m = ''new'')"
proof -
  have nonempty: "''p1'' \<noteq> []" by simp
  have found: "getStudentProfileById (sampleCachedStorage False) (ge_now sampleEnv)
                 (ge_findProfile sampleEnv) ''p1''
               = (Some (newProfile ''p1'' sampleNow sampleProfileInput), sampleCachedStorage False)"
    by (simp add: getStudentProfileById_def sampleCachedStorage_def initialStorage_def)
  have draws: "\<forall>n. 0 \<le> ge_random sampleEnv n \<and> ge_random sampleEnv n < 1"
    by (simp add: sampleEnv_def)
  have catalog: "getAllScholarships (sampleCachedStorage False) (ge_jsonParse sampleEnv)
                   (ge_now sampleEnv) (ge_selectAll sampleEnv) = getFallbackScholarships sampleNow"
    by (simp add: getAllScholarships_def sampleCachedStorage_def initialStorage_def sampleEnv_def)
  have before: "existingMatches (sampleCachedStorage False) ''p1'' = []"
    by (simp add: existingMatches_def sampleCachedStorage_def initialStorage_def)
  have off: "\<not> useAirtable (sampleCachedStorage False)"
    by (simp add: sampleCachedStorage_def initialStorage_def)
  from postMatchesGenerate_creates_matches [OF nonempty found draws]
  obtain created st2 new where c:
    "postMatchesGenerate (sampleCachedStorage False) sampleEnv (Some ''p1'') = (Json created, st2)"
    "length created = length (getFallbackScholarships sampleNow)"
    "existingMatches st2 ''p1'' = existingMatches (sampleCachedStorage False) ''p1'' @ new"
    "map m_scholarshipId new = map sch_id (getFallbackScholarships sampleNow)"
    "\<forall>m \<in> set new. m_profileId m = ''p1'' \<and> 60 \<le> m_matchScore m \<and> m_matchScore m \<le> 100
           \<and> m_status m = ''new'' \<and> m_aiReasoning m = Some placeholderReasoning"
    "\<not> useAirtable (sampleCachedStorage False) \<longrightarrow> created = new"
    unfolding catalog by blast
  from c(6) off have eq: "created = new" by blast
  show ?thesis
    apply (rule exI [of _ created])
    apply (rule exI [of _ st2])
    using c(1) c(2) c(3) c(4) c(5) eq before
    apply (simp add: length_getFallbackScholarships ids_getFallbackScholarships)
    done
qed

subsection \<open>Updating a match status with no backend\<close>

text \<open>
  Claim C10. With no backend configured, \<^verbatim>\<open>updateMatchStatus\<close> leaves the in-memory match
  store as it was, for every match ID, and returns a synthesized match with an empty
  profile ID, an empty scholarship ID, the score 0 and the requested status. A later
  \<^verbatim>\<open>getScholarshipMatches\<close>, for any profile, returns what it returned before the
  update.
\<close>

theorem updateMatchStatus_uninitialized:
  assumes "\<not> useAirtable st"
  shows "updateMatchStatus st now update matchId status =
           (Inr \<lparr> m_id = matchId, m_profileId = [], m_scholarshipId = [], m_matchScore = 0,
                  m_aiReasoning = None, m_status = status, m_createdAt = now \<rparr>, st)
       \<and> matchStorage (snd (updateMatchStatus st now update matchId status)) = matchStorage st
       \<and> getScholarshipMatches (snd (updateMatchStatus st now update matchId status))
            jsonParse now_at find_at selectMatches profileId
          = getScholarshipMatches st jsonParse now_at find_at selectMatches profileId"
  using assms by (simp add: updateMatchStatus_def)

lemma findById_fallback_1:
  "findById ''fallback-1'' (getFallbackScholarships now) \<noteq> None"
  by (simp add: findById_def getFallbackScholarships_def fallbackEntry_def)

lemma findById_fallback_2:
  "findById ''fallback-2'' (getFallbackScholarships now) \<noteq> None"
  by (simp add: findById_def getFallbackScholarships_def fallbackEntry_def)

text \<open>
  The two cached matches of the sample store are still listed as new, highest score
  first, after the status of one of them was set to \<^verbatim>\<open>applied\<close>.
\<close>

theorem updateMatchStatus_uninitialized_witness:
  "fst (updateMatchStatus sampleMatchStorage sampleLater (\<lambda>i s. backendDown i) ''match-1'' ''applied'')
     = Inr \<lparr> m_id = ''match-1'', m_profileId = [], m_scholarshipId = [], m_matchScore = 0,
             m_aiReasoning = None, m_status = ''applied'', m_createdAt = sampleLater \<rparr>
   \<and> map (\<lambda>a. (m_id (fst a), m_status (fst a)))
        (getScholarshipMatches
           (snd (updateMatchStatus sampleMatchStorage sampleLater (\<lambda>i s. backendDown i) ''match-1'' ''applied''))
           sampleJsonParse (\<lambda>n. sampleNow) (\<lambda>n. backendDown) backendDown ''p1'')
     = [(''match-2'', ''new''), (''match-1'', ''new'')]"
proof -
  have off: "\<not> useAirtable sampleMatchStorage"
    by (simp add: sampleMatchStorage_def sampleCachedStorage_def initialStorage_def)
  have stored: "existingMatches sampleMatchStorage ''p1'' =
           [\<lparr> m_id = ''match-1'', m_profileId = ''p1'', m_scholarshipId = ''fallback-1'',
               m_matchScore = 72, m_aiReasoning = Some placeholderReasoning, m_status = ''new'',
               m_createdAt = sampleNow \<rparr>,
            \<lparr> m_id = ''match-2'', m_profileId = ''p1'', m_scholarshipId = ''fallback-2'',
               m_matchScore = 91, m_aiReasoning = Some placeholderReasoning, m_status = ''new'',
               m_createdAt = sampleNow \<rparr>]"
    by (simp add: existingMatches_def sampleMatchStorage_def)
  have before: "map (\<lambda>a. (m_id (fst a), m_status (fst a)))
        (getScholarshipMatches sampleMatchStorage
           sampleJsonParse (\<lambda>n. sampleNow) (\<lambda>n. backendDown) backendDown ''p1'')
     = [(''match-2'', ''new''), (''match-1'', ''new'')]"
    using findById_fallback_1 [of sampleNow] findById_fallback_2 [of sampleNow]
    by (auto simp: getScholarshipMatches_def stored getScholarshipById_def startsWith_def
          sortByScore_def)
  show ?thesis
    using updateMatchStatus_uninitialized [OF off, of sampleLater "\<lambda>i s. backendDown i" "''match-1''"
            "''applied''" sampleJsonParse "\<lambda>n. sampleNow" "\<lambda>n. backendDown" backendDown "''p1''"]
          before
    by simp
qed

subsection \<open>Creating an application\<close>

lemma toLowerCase_pdf_upper: "isPdf ''Transcript.PDF''"
  by code_simp

lemma isPdf_docx: "\<not> isPdf ''essay.docx''"
  by code_simp

text \<open>
  For a request that names a profile and a scholarship and carries a document list, the
  create succeeds exactly when every document name ends in \<^verbatim>\<open>.pdf\<close>, in any letter case;
  one other name rejects the whole request and leaves the store as it was.
\<close>

lemma postApplications_pdf_check:
  assumes "\<not> missing (ab_profileId body)" "\<not> missing (ab_scholarshipId body)"
    and "ab_documents body = Some documents"
  shows "(\<exists>application st'. postApplications st uuid now body = (Json application, st'))
           \<longleftrightarrow> (\<forall>doc \<in> set documents. isPdf doc)"
    and "\<not> (\<forall>doc \<in> set documents. isPdf doc) \<Longrightarrow>
           postApplications st uuid now body = (Status 400 ''Only PDF documents are allowed'', st)"
  using assms
  by (auto simp: postApplications_def Let_def filter_empty_conv createScholarshipApplication_def
           split: prod.splits)

text \<open>
  Claim C2. The claim has a create fail on an empty document list. The handler accepts
  it: the request below, with no document at all, stores and returns an application.
\<close>

theorem postApplications_empty_documents:
  "fst (postApplications (initialStorage False) sampleUuid sampleNow (sampleApplicationBody [] None))
     = Json \<lparr> app_id = sampleUuid, app_studentProfileId = ''p1'', app_scholarshipId = ''fallback-1'',
              app_documents = [], app_status = ''pending'', app_appliedAt = sampleNow \<rparr>
   \<and> getApplications
        (snd (postApplications (initialStorage False) sampleUuid sampleNow (sampleApplicationBody [] None)))
        ''p1''
     = [\<lparr> app_id = sampleUuid, app_studentProfileId = ''p1'', app_scholarshipId = ''fallback-1'',
          app_documents = [], app_status = ''pending'', app_appliedAt = sampleNow \<rparr>]"
  by (simp add: postApplications_def sampleApplicationBody_def missing_def or_empty_def
        createScholarshipApplication_def getApplications_def initialStorage_def Let_def)

text \<open>
  Claim C9. An application that the handler creates has the status \<^verbatim>\<open>pending\<close>, is the
  record appended to the applications stored for its profile, and is the same whatever
  status the client put in the request body.
\<close>

theorem postApplications_status_pending:
  assumes "postApplications st uuid now body = (Json application, st')"
  shows "app_status application = ''pending''
       \<and> getApplications st' (app_studentProfileId application)
           = getApplications st (app_studentProfileId application) @ [application]
       \<and> postApplications st uuid now (body\<lparr>ab_status := status\<rparr>) = (Json application, st')"
  using assms
  by (auto simp: postApplications_def Let_def createScholarshipApplication_def getApplications_def
           split: if_splits option.splits)

theorem postApplications_status_pending_witness:
  "\<exists>application st'.
      postApplications (initialStorage False) sampleUuid sampleNow
        (sampleApplicationBody [''Transcript.PDF''] (Some ''approved'')) = (Json application, st')
    \<and> app_status application = ''pending''
    \<and> getApplications st' ''p1'' = [application]"
proof -
  have run: "postApplications (initialStorage False) sampleUuid sampleNow
               (sampleApplicationBody [''Transcript.PDF''] (Some ''approved''))
             = (Json \<lparr> app_id = sampleUuid, app_studentProfileId = ''p1'',
                       app_scholarshipId = ''fallback-1'', app_documents = [''Transcript.PDF''],
                       app_status = ''pending'', app_appliedAt = sampleNow \<rparr>,
                (initialStorage False)\<lparr>applicationStorage :=
                   [''p1'' \<mapsto> [\<lparr> app_id = sampleUuid, app_studentProfileId = ''p1'',
                       app_scholarshipId = ''fallback-1'', app_documents = [''Transcript.PDF''],
                       app_status = ''pending'', app_appliedAt = sampleNow \<rparr>]]\<rparr>)"
    using toLowerCase_pdf_upper
    by (simp add: postApplications_def sampleApplicationBody_def missing_def or_empty_def
          createScholarshipApplication_def initialStorage_def Let_def)
  have before: "getApplications (initialStorage False) ''p1'' = []"
    by (simp add: getApplications_def initialStorage_def)
  show ?thesis
    using postApplications_status_pending [OF run, of None] run before
    by simp
qed

end
